theory Spec2Isabelle
  imports Complex_Main "HOL-Library.Word"
begin

section \<open>Tone generators (src/demo/tonegen.cpp)\<close>

text \<open>
  Conventions of the embedding.
  \<^item> A \<open>float\<close> value is a \<open>real\<close>. The conversion \<open>static_cast<float>\<close> of the sample
    counter rounds to the 24 significant bits of binary32 (to nearest, ties to even); the
    division by 16 is exact in binary32. The rounding of \<open>::sin\<close> and of the product with
    the amplitude, which is of the last bit, is outside the model.
  \<^item> \<open>unsigned int\<close> is a 32-bit word: \<open>++sampleCount_\<close> wraps at \<open>2 ^ 32\<close>.
  \<^item> A data member \<open>x_\<close> of the source is the field \<open>x_m\<close> here, since an Isabelle
    name cannot end with an underscore.
  \<^item> A \<open>ToneGen*\<close> is an address into a store of objects; \<open>NULL\<close> is \<open>None\<close>.
  \<^item> \<open>RtAudio\<close> and \<open><random>\<close> are libraries outside the repository. Their operations
    are parameters of the model (records of functions over an abstract state); an
    exception thrown by a library call is the value \<open>Throws\<close>.
\<close>

type_synonym uint = "32 word"

record ToneGen =
  sample_m :: real
  amplitude_m :: real
  sampleCount_m :: uint

text \<open>\<open>ToneGen(float a) : sample_(-1.0), amplitude_(a), sampleCount_(0)\<close>\<close>

definition ToneGen_ctor :: "real \<Rightarrow> ToneGen" where
  "ToneGen_ctor a = \<lparr>sample_m = - 1, amplitude_m = a, sampleCount_m = 0\<rparr>"

text \<open>
  The three subclasses. \<open>WhiteNoiseGen\<close> adds the members \<open>gen_\<close> (the engine state) and
  \<open>dist_\<close> (the two bounds the distribution was constructed with).
\<close>

datatype 'g ToneGenObj =
    SineGen ToneGen
  | SquareGen ToneGen
  | WhiteNoiseGen ToneGen 'g real real

text \<open>
  \<open><random>\<close>: \<open>default_random_engine\<close> is the state of a default-constructed
  \<open>std::default_random_engine\<close>; \<open>uniform_real_distribution lo hi g\<close> is one call
  \<open>dist(g)\<close> of a \<open>std::uniform_real_distribution<float>(lo, hi)\<close>: the value drawn and the
  engine state after the call.
\<close>

record 'g random =
  default_random_engine :: 'g
  uniform_real_distribution :: "real \<Rightarrow> real \<Rightarrow> 'g \<Rightarrow> real \<times> 'g"

text \<open>
  What the C++ standard promises of \<open>std::uniform_real_distribution\<close> when it is
  constructed with bounds in order: the value drawn is not below the lower bound and not
  above the upper one.
\<close>

definition draws_within_bounds :: "'g random \<Rightarrow> bool" where
  "draws_within_bounds rng \<longleftrightarrow>
     (\<forall>lo hi g. lo \<le> hi \<longrightarrow>
        lo \<le> fst (uniform_real_distribution rng lo hi g)
        \<and> fst (uniform_real_distribution rng lo hi g) \<le> hi)"

text \<open>
  What the implementations of the distribution do whatever the order of the bounds, since
  they map a number of \<open>[0, 1)\<close> linearly between them: the value drawn lies between the
  two bounds.
\<close>

definition draws_between_bounds :: "'g random \<Rightarrow> bool" where
  "draws_between_bounds rng \<longleftrightarrow>
     (\<forall>lo hi g. min lo hi \<le> fst (uniform_real_distribution rng lo hi g)
        \<and> fst (uniform_real_distribution rng lo hi g) \<le> max lo hi)"

text \<open>Default arguments of the constructors: \<open>float a = 1.0\<close>, \<open>float a = 1.0\<close>, \<open>float a = .25\<close>.\<close>

definition SineGen_default_a :: real where
  "SineGen_default_a = 1.0"

definition SquareGen_default_a :: real where
  "SquareGen_default_a = 1.0"

definition WhiteNoiseGen_default_a :: real where
  "WhiteNoiseGen_default_a = 0.25"

definition SineGen_ctor :: "real \<Rightarrow> 'g ToneGenObj" where
  "SineGen_ctor a = SineGen (ToneGen_ctor a)"

definition SquareGen_ctor :: "real \<Rightarrow> 'g ToneGenObj" where
  "SquareGen_ctor a = SquareGen (ToneGen_ctor a)"

text \<open>\<open>WhiteNoiseGen(float a = .25) : ToneGen(a), gen_(), dist_(-a, a)\<close>\<close>

definition WhiteNoiseGen_ctor :: "'g random \<Rightarrow> real \<Rightarrow> 'g ToneGenObj" where
  "WhiteNoiseGen_ctor rng a = WhiteNoiseGen (ToneGen_ctor a) (default_random_engine rng) (- a) a"

text \<open>\<open>int sgn(float val) { return (0.0 < val) - (val < 0.0); }\<close>\<close>

definition sgn_val :: "real \<Rightarrow> int" where
  "sgn_val val = (if 0 < val then 1 else 0) - (if val < 0 then 1 else 0)"

text \<open>
  \<open>static_cast<float>(sampleCount_)\<close>. A binary32 number has 24 significant bits, so a
  counter below \<open>2 ^ 24\<close> is kept and a larger one is rounded to a multiple of the spacing
  of the floats around it: 2 from \<open>2 ^ 24\<close>, 4 from \<open>2 ^ 25\<close>, and so on to 256 from
  \<open>2 ^ 31\<close>. The rounding is to the nearest multiple, and to the one with an even
  quotient when two are equally near.
\<close>

definition float_ulp :: "nat \<Rightarrow> nat" where
  "float_ulp n =
     (if n < 2 ^ 24 then 1 else if n < 2 ^ 25 then 2 else if n < 2 ^ 26 then 4
      else if n < 2 ^ 27 then 8 else if n < 2 ^ 28 then 16 else if n < 2 ^ 29 then 32
      else if n < 2 ^ 30 then 64 else if n < 2 ^ 31 then 128 else 256)"

definition round_nearest_even :: "nat \<Rightarrow> nat \<Rightarrow> nat" where
  "round_nearest_even u n =
     (let q = n div u; r = n mod u
      in if 2 * r < u then q * u
         else if u < 2 * r then (q + 1) * u
         else if even q then q * u else (q + 1) * u)"

definition float_of_nat :: "nat \<Rightarrow> real" where
  "float_of_nat n = real (round_nearest_even (float_ulp n) n)"

definition static_cast_float :: "uint \<Rightarrow> real" where
  "static_cast_float c = float_of_nat (unat c)"

text \<open>
  \<open>float nextSample()\<close> of \<open>SineGen\<close> and of \<open>SquareGen\<close>: the sample is stored in
  \<open>sample_\<close>, the counter is incremented, the stored sample is returned.
\<close>

definition SineGen_nextSample :: "ToneGen \<Rightarrow> real \<times> ToneGen" where
  "SineGen_nextSample t =
     (let s = amplitude_m t * sin (static_cast_float (sampleCount_m t) / 16);
          t1 = t\<lparr>sample_m := s\<rparr>;
          t2 = t1\<lparr>sampleCount_m := sampleCount_m t1 + 1\<rparr>
      in (sample_m t2, t2))"

definition SquareGen_nextSample :: "ToneGen \<Rightarrow> real \<times> ToneGen" where
  "SquareGen_nextSample t =
     (let s = amplitude_m t * real_of_int (sgn_val (sin (static_cast_float (sampleCount_m t) / 16)));
          t1 = t\<lparr>sample_m := s\<rparr>;
          t2 = t1\<lparr>sampleCount_m := sampleCount_m t1 + 1\<rparr>
      in (sample_m t2, t2))"

text \<open>The virtual call \<open>tg->nextSample()\<close>: the sample returned and the object afterwards.\<close>

fun nextSample :: "'g random \<Rightarrow> 'g ToneGenObj \<Rightarrow> real \<times> 'g ToneGenObj" where
  "nextSample rng (SineGen t) = (case SineGen_nextSample t of (s, t') \<Rightarrow> (s, SineGen t'))"
| "nextSample rng (SquareGen t) = (case SquareGen_nextSample t of (s, t') \<Rightarrow> (s, SquareGen t'))"
| "nextSample rng (WhiteNoiseGen t g lo hi) =
     (case uniform_real_distribution rng lo hi g of (s, g') \<Rightarrow> (s, WhiteNoiseGen t g' lo hi))"

text \<open>The members of the base class, whatever the subclass.\<close>

fun base :: "'g ToneGenObj \<Rightarrow> ToneGen" where
  "base (SineGen t) = t"
| "base (SquareGen t) = t"
| "base (WhiteNoiseGen t g lo hi) = t"

text \<open>
  Observing a generator: the object after \<open>n\<close> calls, the sample returned by call number
  \<open>i\<close> (counted from 0), and the list of the first \<open>n\<close> samples.
\<close>

fun advance :: "'g random \<Rightarrow> nat \<Rightarrow> 'g ToneGenObj \<Rightarrow> 'g ToneGenObj" where
  "advance rng 0 g = g"
| "advance rng (Suc n) g = advance rng n (snd (nextSample rng g))"

definition nth_sample :: "'g random \<Rightarrow> nat \<Rightarrow> 'g ToneGenObj \<Rightarrow> real" where
  "nth_sample rng i g = fst (nextSample rng (advance rng i g))"

fun samples :: "'g random \<Rightarrow> nat \<Rightarrow> 'g ToneGenObj \<Rightarrow> real list" where
  "samples rng 0 g = []"
| "samples rng (Suc n) g = fst (nextSample rng g) # samples rng n (snd (nextSample rng g))"


subsection \<open>The store of generator objects\<close>

text \<open>
  \<open>new\<close> and \<open>delete\<close> on \<open>ToneGen\<close> objects. An address is an index into the store; an
  address with an empty cell, or beyond the store, is not allocated. Which address
  \<open>operator new\<close> returns is the allocator's choice, a parameter of the model: a function of
  the store, so that an address that \<open>delete\<close> has freed may be handed out again. \<open>new\<close>
  puts the object at the chosen address and \<open>delete\<close> empties the cell.
\<close>

type_synonym addr = nat

type_synonym 'g heap = "'g ToneGenObj option list"

type_synonym 'g allocator = "'g heap \<Rightarrow> addr"

definition lookup :: "'g heap \<Rightarrow> addr \<Rightarrow> 'g ToneGenObj option" where
  "lookup h p = (if p < length h then h ! p else None)"

definition put :: "'g heap \<Rightarrow> addr \<Rightarrow> 'g ToneGenObj \<Rightarrow> 'g heap" where
  "put h p obj =
     (if p < length h then h[p := Some obj]
      else h @ replicate (p - length h) None @ [Some obj])"

definition new :: "'g allocator \<Rightarrow> 'g heap \<Rightarrow> 'g ToneGenObj \<Rightarrow> addr \<times> 'g heap" where
  "new al h obj = (al h, put h (al h) obj)"

text \<open>What every allocator guarantees: the address it returns is not allocated.\<close>

definition allocates_free :: "'g allocator \<Rightarrow> bool" where
  "allocates_free al \<longleftrightarrow> (\<forall>h. lookup h (al h) = None)"

definition delete :: "'g heap \<Rightarrow> addr \<Rightarrow> 'g heap" where
  "delete h p = h[p := None]"

text \<open>The number of objects that are allocated.\<close>

definition live :: "'g heap \<Rightarrow> nat" where
  "live h = length (filter (\<lambda>c. c \<noteq> None) h)"

text \<open>
  A call \<open>p->nextSample()\<close> through a pointer: the object at \<open>p\<close> is replaced by the object
  after the call. Through a pointer that is not allocated the call is undefined.
\<close>

definition call_nextSample :: "'g random \<Rightarrow> 'g heap \<Rightarrow> addr \<Rightarrow> (real \<times> 'g heap) option" where
  "call_nextSample rng h p =
     (case lookup h p of
        None \<Rightarrow> None
      | Some g \<Rightarrow> (case nextSample rng g of (s, g') \<Rightarrow> Some (s, h[p := Some g'])))"

text \<open>
  A sequence of such calls, on the objects named in the list in that order, with the log
  of who returned what; \<open>heard p\<close> is what the object at \<open>p\<close> returned, in order.
\<close>

fun run_calls :: "'g random \<Rightarrow> addr list \<Rightarrow> 'g heap \<Rightarrow> ((addr \<times> real) list \<times> 'g heap) option" where
  "run_calls rng [] h = Some ([], h)"
| "run_calls rng (p # ps) h =
     (case call_nextSample rng h p of
        None \<Rightarrow> None
      | Some (s, h') \<Rightarrow>
          (case run_calls rng ps h' of
             None \<Rightarrow> None
           | Some (tr, h'') \<Rightarrow> Some ((p, s) # tr, h'')))"

definition heard :: "addr \<Rightarrow> (addr \<times> real) list \<Rightarrow> real list" where
  "heard p tr = map snd (filter (\<lambda>e. fst e = p) tr)"

section \<open>The playback driver (class SimplePlayback)\<close>

subsection \<open>The audio backend\<close>

text \<open>
  \<open>RtAudio\<close> is not part of the repository: the calls the driver makes are parameters,
  functions over the backend's own state \<open>'a\<close>. A call either returns or throws an
  \<open>RtAudioError\<close>; in both cases it may have changed the backend's state, and
  \<open>openStream\<close> may have written the negotiated period size through the pointer \<open>&fs_\<close>.
  The arguments that \<open>init\<close> passes as constants (no input parameters,
  \<open>RTAUDIO_FLOAT32\<close>, the callback and \<open>this\<close>) are not arguments of the parameter.
\<close>

datatype RtAudioError = RtAudioError string

datatype 'r call = Returns 'r | Throws RtAudioError 'r

record StreamParameters =
  deviceId :: uint
  nChannels :: uint
  firstChannel :: uint

record 'a RtAudio =
  getDefaultOutputDevice :: "'a \<Rightarrow> uint"
  openStream :: "'a \<Rightarrow> StreamParameters \<Rightarrow> uint \<Rightarrow> uint \<Rightarrow> ('a \<times> uint) call"
  startStream :: "'a \<Rightarrow> 'a call"
  stopStream :: "'a \<Rightarrow> 'a call"
  isStreamOpen :: "'a \<Rightarrow> bool"
  closeStream :: "'a \<Rightarrow> 'a call"

subsection \<open>The driver\<close>

record 'a SimplePlayback =
  audio_m :: 'a
  streamParameters_m :: StreamParameters
  playing_m :: bool
  sr_m :: uint
  fs_m :: uint
  tg_m :: "addr option"

text \<open>
  \<open>SimplePlayback() : audio_(), streamParameters_(), playing_(false), sr_(0), fs_(512),
  tg_(NULL)\<close>. The default-constructed backend state is the argument; the
  value-initialised \<open>StreamParameters\<close> is all zero.
\<close>

definition SimplePlayback_ctor :: "'a \<Rightarrow> 'a SimplePlayback" where
  "SimplePlayback_ctor a0 =
     \<lparr>audio_m = a0,
      streamParameters_m = \<lparr>deviceId = 0, nChannels = 0, firstChannel = 0\<rparr>,
      playing_m = False, sr_m = 0, fs_m = 512, tg_m = None\<rparr>"

text \<open>
  \<open>bool init(unsigned int sr, unsigned int nch, unsigned int toneGen)\<close>. The three
  assignments come before the \<open>try\<close>; the \<open>catch\<close> returns false; after the \<open>try\<close> the old
  generator is deleted if there is one and the \<open>switch\<close> constructs the new one.
\<close>

definition init ::
  "'a RtAudio \<Rightarrow> 'g random \<Rightarrow> 'g allocator \<Rightarrow> uint \<Rightarrow> uint \<Rightarrow> uint
     \<Rightarrow> 'g heap \<times> 'a SimplePlayback \<Rightarrow> bool \<times> 'g heap \<times> 'a SimplePlayback" where
  "init be rng al sr nch toneGen w =
     (case w of (h, pb) \<Rightarrow>
        let pb1 = pb\<lparr>sr_m := sr\<rparr>;
            pb2 = pb1\<lparr>streamParameters_m := (streamParameters_m pb1)
                        \<lparr>deviceId := getDefaultOutputDevice be (audio_m pb1)\<rparr>\<rparr>;
            pb3 = pb2\<lparr>streamParameters_m := (streamParameters_m pb2)\<lparr>nChannels := nch\<rparr>\<rparr>;
            pb4 = pb3\<lparr>streamParameters_m := (streamParameters_m pb3)\<lparr>firstChannel := 0\<rparr>\<rparr>
        in (case openStream be (audio_m pb4) (streamParameters_m pb4) (sr_m pb4) (fs_m pb4) of
              Throws e (a, f) \<Rightarrow> (False, h, pb4\<lparr>audio_m := a, fs_m := f\<rparr>)
            | Returns (a, f) \<Rightarrow>
                let pb5 = pb4\<lparr>audio_m := a, fs_m := f\<rparr>;
                    h1 = (case tg_m pb5 of None \<Rightarrow> h | Some p \<Rightarrow> delete h p)
                in (case (if toneGen = 1 then new al h1 (SquareGen_ctor SquareGen_default_a)
                          else if toneGen = 2
                          then new al h1 (WhiteNoiseGen_ctor rng WhiteNoiseGen_default_a)
                          else new al h1 (SineGen_ctor SineGen_default_a)) of
                      (p', h2) \<Rightarrow> (True, h2, pb5\<lparr>tg_m := Some p'\<rparr>))))"

text \<open>\<open>bool start()\<close>\<close>

definition start :: "'a RtAudio \<Rightarrow> 'a SimplePlayback \<Rightarrow> bool \<times> 'a SimplePlayback" where
  "start be pb =
     (if playing_m pb then (False, pb)
      else case startStream be (audio_m pb) of
             Returns a \<Rightarrow> (True, pb\<lparr>audio_m := a, playing_m := True\<rparr>)
           | Throws e a \<Rightarrow> (False, pb\<lparr>audio_m := a\<rparr>))"

text \<open>\<open>bool stop()\<close>\<close>

definition stop :: "'a RtAudio \<Rightarrow> 'a SimplePlayback \<Rightarrow> bool \<times> 'a SimplePlayback" where
  "stop be pb =
     (if \<not> playing_m pb then (False, pb)
      else case stopStream be (audio_m pb) of
             Throws e a \<Rightarrow> (False, pb\<lparr>audio_m := a\<rparr>)
           | Returns a \<Rightarrow>
               let pb1 = pb\<lparr>audio_m := a, playing_m := False\<rparr>
               in if isStreamOpen be (audio_m pb1)
                  then (case closeStream be (audio_m pb1) of
                          Throws e a' \<Rightarrow> (False, pb1\<lparr>audio_m := a'\<rparr>)
                        | Returns a' \<Rightarrow> (True, pb1\<lparr>audio_m := a'\<rparr>))
                  else (True, pb1))"

text \<open>
  \<open>int callback(void *outBuf, void *inBuf, unsigned int nFrames, double streamTime,
  RtAudioStreamStatus status)\<close>, which the static \<open>rtaudio_callback\<close> forwards to. The
  input buffer, the stream time and the status are not used and not modelled. The output
  buffer is a list of floats; the store \<open>*buf++ = tg_->nextSample()\<close> of iteration \<open>i\<close>
  writes slot \<open>i\<close>. \<open>callback_loop k i\<close> is the loop with \<open>k\<close> iterations left at
  position \<open>i\<close>. The result is \<open>None\<close> where the C++ is undefined: \<open>tg_\<close> null or not
  allocated when it is dereferenced, a store beyond the buffer, and the overflow of the
  \<open>int\<close> loop counter \<open>i\<close>, which happens when \<open>nFrames\<close> exceeds \<open>INT_MAX\<close>.
\<close>

primrec callback_loop ::
  "'g random \<Rightarrow> nat \<Rightarrow> nat \<Rightarrow> addr option \<Rightarrow> 'g heap \<Rightarrow> real list \<Rightarrow> ('g heap \<times> real list) option" where
  "callback_loop rng 0 i tg h buf = Some (h, buf)"
| "callback_loop rng (Suc k) i tg h buf =
     (case tg of
        None \<Rightarrow> None
      | Some p \<Rightarrow>
          (case call_nextSample rng h p of
             None \<Rightarrow> None
           | Some (s, h') \<Rightarrow>
               if i < length buf then callback_loop rng k (Suc i) tg h' (buf[i := s]) else None))"

definition callback ::
  "'g random \<Rightarrow> 'g heap \<times> 'a SimplePlayback \<Rightarrow> real list \<Rightarrow> uint
     \<Rightarrow> (int \<times> real list \<times> 'g heap \<times> 'a SimplePlayback) option" where
  "callback rng w outBuf nFrames =
     (case w of (h, pb) \<Rightarrow>
        if 2 ^ 31 \<le> unat nFrames then None
        else (case callback_loop rng (unat nFrames) 0 (tg_m pb) h outBuf of
                None \<Rightarrow> None
              | Some (h', buf') \<Rightarrow> Some (0, buf', h', pb)))"

text \<open>
  The float that holds channel \<open>c\<close> of frame \<open>f\<close> in a buffer of \<open>nch\<close> channels. The
  buffer is interleaved, the samples of one frame being adjacent: \<open>init\<close> passes no
  stream options to \<open>openStream\<close>, and RtAudio hands out non-interleaved buffers only
  when the option \<open>RTAUDIO_NONINTERLEAVED\<close> is set. (The spec, too, speaks of blocks of
  interleaved samples.)
\<close>

definition slot :: "nat \<Rightarrow> nat \<Rightarrow> nat \<Rightarrow> nat" where
  "slot nch f c = f * nch + c"

text \<open>
  Simulating the audio thread: \<open>n\<close> invocations of the callback, each on a zeroed buffer
  of \<open>nFrames\<close> frames of \<open>nChannels\<close> channels, the buffers concatenated.
\<close>

fun run_callbacks ::
  "'g random \<Rightarrow> nat \<Rightarrow> uint \<Rightarrow> 'g heap \<times> 'a SimplePlayback
     \<Rightarrow> (real list \<times> 'g heap \<times> 'a SimplePlayback) option" where
  "run_callbacks rng 0 nFrames w = Some ([], w)"
| "run_callbacks rng (Suc n) nFrames w =
     (case callback rng w
             (replicate (unat nFrames * unat (nChannels (streamParameters_m (snd w)))) 0) nFrames of
        None \<Rightarrow> None
      | Some (r, buf, w') \<Rightarrow>
          (case run_callbacks rng n nFrames w' of
             None \<Rightarrow> None
           | Some (out, w'') \<Rightarrow> Some (buf @ out, w'')))"

subsection \<open>Reference instances of the library parameters\<close>

text \<open>
  A backend that follows RtAudio's documented stream states: \<open>openStream\<close> throws when a
  stream is already open or no channel is requested, \<open>startStream\<close> and \<open>stopStream\<close>
  throw when no stream is open, \<open>closeStream\<close> never throws. It keeps the period size it
  is offered.
\<close>

datatype StreamState = STREAM_CLOSED | STREAM_STOPPED | STREAM_RUNNING

definition sim_audio :: "StreamState RtAudio" where
  "sim_audio =
     \<lparr>getDefaultOutputDevice = (\<lambda>s. 0),
      openStream = (\<lambda>s p sr f.
         if s \<noteq> STREAM_CLOSED then Throws (RtAudioError ''a stream is already open'') (s, f)
         else if nChannels p = 0 then Throws (RtAudioError ''invalid stream parameters'') (s, f)
         else Returns (STREAM_STOPPED, f)),
      startStream = (\<lambda>s.
         if s = STREAM_CLOSED then Throws (RtAudioError ''no open stream'') s
         else Returns STREAM_RUNNING),
      stopStream = (\<lambda>s.
         if s = STREAM_CLOSED then Throws (RtAudioError ''no open stream'') s
         else Returns STREAM_STOPPED),
      isStreamOpen = (\<lambda>s. s \<noteq> STREAM_CLOSED),
      closeStream = (\<lambda>s. Returns STREAM_CLOSED)\<rparr>"

text \<open>A backend whose device is gone: every call throws and changes nothing.\<close>

definition lost_audio :: "StreamState RtAudio" where
  "lost_audio =
     \<lparr>getDefaultOutputDevice = (\<lambda>s. 0),
      openStream = (\<lambda>s p sr f. Throws (RtAudioError ''device disconnected'') (s, f)),
      startStream = (\<lambda>s. Throws (RtAudioError ''device disconnected'') s),
      stopStream = (\<lambda>s. Throws (RtAudioError ''device disconnected'') s),
      isStreamOpen = (\<lambda>s. s \<noteq> STREAM_CLOSED),
      closeStream = (\<lambda>s. Throws (RtAudioError ''device disconnected'') s)\<rparr>"

text \<open>
  A backend that stops a stream but cannot close it: \<open>closeStream\<close> throws and changes
  nothing, the other calls are those of \<open>sim_audio\<close>.
\<close>

definition unclosable_audio :: "StreamState RtAudio" where
  "unclosable_audio =
     sim_audio\<lparr>closeStream := (\<lambda>s. Throws (RtAudioError ''cannot close the device'') s)\<rparr>"

text \<open>An allocator that returns the lowest address that is not allocated.\<close>

fun first_fit :: "'g allocator" where
  "first_fit [] = 0"
| "first_fit (None # h) = 0"
| "first_fit (Some obj # h) = Suc (first_fit h)"

text \<open>
  An engine in the style of \<open>minstd_rand0\<close>: the state is multiplied by 16807 modulo
  \<open>2 ^ 31 - 1\<close>, the default seed is 1, and a draw maps the new state linearly from
  \<open>[0, 1)\<close> to \<open>[lo, hi)\<close>.
\<close>

definition minstd_next :: "nat \<Rightarrow> nat" where
  "minstd_next g = (16807 * g) mod 2147483647"

definition minstd_canonical :: "nat \<Rightarrow> real" where
  "minstd_canonical g = real (g - 1) / 2147483646"

definition sim_random :: "nat random" where
  "sim_random =
     \<lparr>default_random_engine = 1,
      uniform_real_distribution = (\<lambda>lo hi g.
         (minstd_canonical (minstd_next g) * (hi - lo) + lo, minstd_next g))\<rparr>"

section \<open>The audio buffer (src/toolbox/include/audiobuffer.h)\<close>

datatype SampleFormat = INT16 | FLOAT32


record AudioBuffer =
  frameSize_m :: uint
  nChannels_m :: uint
  sampleRate_m :: uint
  format_m :: SampleFormat
  data_m :: "8 word list"





text \<open>\<open>uint32_t size() const { return data_.size(); }\<close>: the \<open>size_t\<close> narrowed to 32 bits.\<close>

definition size_u32 :: "AudioBuffer \<Rightarrow> uint" where
  "size_u32 b = of_nat (length (data_m b))"







section \<open>Numerical facts about the sine\<close>

text \<open>
  After \<open>2 ^ 32\<close> calls the sample counter is 0 again, while \<open>2 ^ 32 / 16 = 2 ^ 28\<close> is not
  a zero of the sine; and the counter 16777261 becomes the float 16777260, while the sine
  changes its sign between \<open>16777260 / 16\<close> and \<open>16777261 / 16\<close>. Both need \<open>pi\<close> to nine
  digits; they come from Machin's formula and the alternating series of the arc tangent.
\<close>

lemma arctan_series_bounds:
  fixes x :: real
  assumes "0 \<le> x" "x \<le> 1"
  shows "(\<Sum>i<2*n. (-1)^i * (1 / real (i * 2 + 1) * x ^ (i * 2 + 1))) \<le> arctan x"
    and "arctan x \<le> (\<Sum>i<2*n+1. (-1)^i * (1 / real (i * 2 + 1) * x ^ (i * 2 + 1)))"
proof -
  let ?a = "\<lambda>n. 1 / real (n * 2 + 1) * x ^ (n * 2 + 1)"
  have ax: "\<bar>x\<bar> \<le> 1" using assms by simp
  have z: "?a \<longlonglongrightarrow> 0" by (rule zeroseq_arctan_series [OF ax])
  have p: "0 \<le> ?a k" for k using assms by simp
  have m: "?a (Suc k) \<le> ?a k" for k
  proof -
    have "x ^ (Suc k * 2 + 1) \<le> x ^ (k * 2 + 1)"
      using assms by (intro power_decreasing) auto
    moreover have "1 / real (Suc k * 2 + 1) \<le> 1 / real (k * 2 + 1)"
      by (simp add: field_simps)
    ultimately show ?thesis
      using assms by (intro mult_mono) auto
  qed
  have s: "arctan x = (\<Sum>k. (-1)^k * ?a k)" by (rule arctan_series [OF ax])
  show "(\<Sum>i<2*n. (-1)^i * ?a i) \<le> arctan x"
    unfolding s by (rule summable_Leibniz'(2) [of ?a, OF z p m])
  show "arctan x \<le> (\<Sum>i<2*n+1. (-1)^i * ?a i)"
    unfolding s by (rule summable_Leibniz'(4) [of ?a, OF z p m])
qed

lemma pi_bounds: "314159265 / 100000000 < pi" "pi < 314159266 / 100000000"
proof -
  have a: "(\<Sum>i<2*3. (-1)^i * (1 / real (i * 2 + 1) * (1/5) ^ (i * 2 + 1))) \<le> arctan (1/5::real)"
    by (rule arctan_series_bounds(1)) simp_all
  have b: "arctan (1/5::real) \<le> (\<Sum>i<2*3+1. (-1)^i * (1 / real (i * 2 + 1) * (1/5) ^ (i * 2 + 1)))"
    by (rule arctan_series_bounds(2)) simp_all
  have c: "(\<Sum>i<2*1. (-1)^i * (1 / real (i * 2 + 1) * (1/239) ^ (i * 2 + 1))) \<le> arctan (1/239::real)"
    by (rule arctan_series_bounds(1)) simp_all
  have d: "arctan (1/239::real) \<le> (\<Sum>i<2*1+1. (-1)^i * (1 / real (i * 2 + 1) * (1/239) ^ (i * 2 + 1)))"
    by (rule arctan_series_bounds(2)) simp_all
  have m: "pi = 16 * arctan (1/5) - 4 * arctan (1/239)"
    using machin by simp
  show "314159265 / 100000000 < pi"
    using a d unfolding m by (simp add: lessThan_Suc eval_nat_numeral)
  show "pi < 314159266 / 100000000"
    using b c unfolding m by (simp add: lessThan_Suc eval_nat_numeral)
qed

lemma sin_2_28: "sin (268435456::real) \<noteq> 0"
proof
  assume "sin (268435456::real) = 0"
  then obtain i :: int where i: "268435456 = of_int i * pi"
    unfolding sin_zero_iff_int2 by blast
  show False
  proof (cases "i \<le> 85445659")
    case True
    then have "real_of_int i \<le> 85445659" by simp
    then have "of_int i * pi \<le> 85445659 * pi"
      by (rule mult_right_mono) simp
    with i pi_bounds(2) show False by simp
  next
    case False
    then have "85445660 \<le> real_of_int i" by simp
    then have "85445660 * pi \<le> of_int i * pi"
      by (rule mult_right_mono) simp
    with i pi_bounds(1) show False by simp
  qed
qed

lemma sin_shift: "sin (y + real n * pi) = (- 1) ^ n * sin y"
  by (simp add: sin_add)

lemma sin_cast_pos: "0 < sin (16777260 / 16 :: real)"
proof -
  let ?y = "16777260 / 16 - real 333772 * pi"
  have "0 < ?y" using pi_bounds(2) by simp
  moreover have "?y < pi" using pi_bounds(1) by simp
  ultimately have "0 < sin ?y" by (rule sin_gt_zero)
  moreover have "sin (?y + real 333772 * pi) = (- 1) ^ 333772 * sin ?y"
    by (rule sin_shift)
  ultimately show ?thesis by simp
qed

lemma sin_cast_neg: "sin (16777261 / 16 :: real) < 0"
proof -
  let ?y = "16777261 / 16 - real 333773 * pi"
  have "0 < ?y" using pi_bounds(2) by simp
  moreover have "?y < pi" using pi_bounds(1) by simp
  ultimately have "0 < sin ?y" by (rule sin_gt_zero)
  moreover have "sin (?y + real 333773 * pi) = (- 1) ^ 333773 * sin ?y"
    by (rule sin_shift)
  ultimately show ?thesis by simp
qed

section \<open>The generators\<close>

subsection \<open>The conversion of the counter\<close>

lemma float_of_nat_exact: "n \<le> 2 ^ 24 \<Longrightarrow> float_of_nat n = real n"
proof (cases "n < 2 ^ 24")
  case True
  then show ?thesis
    by (simp add: float_of_nat_def float_ulp_def round_nearest_even_def)
next
  case False
  assume "n \<le> 2 ^ 24"
  with False have "n = 2 ^ 24" by simp
  then show ?thesis
    by (simp add: float_of_nat_def float_ulp_def round_nearest_even_def)
qed

lemma float_of_nat_16777261: "float_of_nat 16777261 = 16777260"
  by (simp add: float_of_nat_def float_ulp_def round_nearest_even_def)

lemma static_cast_float_16777261: "static_cast_float 16777261 = 16777260"
  by (simp add: static_cast_float_def float_of_nat_16777261)

lemma static_cast_float_4294967296: "static_cast_float 4294967296 = 0"
  by (simp add: static_cast_float_def float_of_nat_exact)

lemma unat_of_nat_32: "unat (of_nat i :: uint) = i mod 2 ^ 32"
  by (simp add: unat_of_nat)

lemma static_cast_float_of_nat: "static_cast_float (of_nat i) = float_of_nat (i mod 2 ^ 32)"
  by (simp add: static_cast_float_def unat_of_nat_32)

subsection \<open>What \<open>n\<close> calls do to a generator\<close>

lemma advance_SineGen:
  "\<exists>t'. advance rng n (SineGen t) = SineGen t' \<and> amplitude_m t' = amplitude_m t
        \<and> sampleCount_m t' = sampleCount_m t + of_nat n"
proof (induction n arbitrary: t)
  case 0
  show ?case by simp
next
  case (Suc n)
  obtain t1 where t1: "snd (nextSample rng (SineGen t)) = SineGen t1"
      "amplitude_m t1 = amplitude_m t" "sampleCount_m t1 = sampleCount_m t + 1"
    by (simp add: SineGen_nextSample_def Let_def)
  from Suc.IH [of t1] t1 show ?case
    by (auto simp: add.assoc add.commute)
qed

lemma advance_SquareGen:
  "\<exists>t'. advance rng n (SquareGen t) = SquareGen t' \<and> amplitude_m t' = amplitude_m t
        \<and> sampleCount_m t' = sampleCount_m t + of_nat n"
proof (induction n arbitrary: t)
  case 0
  show ?case by simp
next
  case (Suc n)
  obtain t1 where t1: "snd (nextSample rng (SquareGen t)) = SquareGen t1"
      "amplitude_m t1 = amplitude_m t" "sampleCount_m t1 = sampleCount_m t + 1"
    by (simp add: SquareGen_nextSample_def Let_def)
  from Suc.IH [of t1] t1 show ?case
    by (auto simp: add.assoc add.commute)
qed

lemma advance_WhiteNoiseGen:
  "\<exists>g'. advance rng n (WhiteNoiseGen t g lo hi) = WhiteNoiseGen t g' lo hi"
proof (induction n arbitrary: g)
  case 0
  show ?case by simp
next
  case (Suc n)
  obtain g1 where "snd (nextSample rng (WhiteNoiseGen t g lo hi)) = WhiteNoiseGen t g1 lo hi"
    by (cases "uniform_real_distribution rng lo hi g") simp
  with Suc.IH [of g1] show ?case by simp
qed

lemma nth_sample_SineGen:
  "nth_sample rng i (SineGen t) =
     amplitude_m t * sin (static_cast_float (sampleCount_m t + of_nat i) / 16)"
proof -
  obtain t' where "advance rng i (SineGen t) = SineGen t'" "amplitude_m t' = amplitude_m t"
      "sampleCount_m t' = sampleCount_m t + of_nat i"
    using advance_SineGen by blast
  then show ?thesis
    by (simp add: nth_sample_def SineGen_nextSample_def Let_def)
qed

lemma nth_sample_SquareGen:
  "nth_sample rng i (SquareGen t) =
     amplitude_m t
       * real_of_int (sgn_val (sin (static_cast_float (sampleCount_m t + of_nat i) / 16)))"
proof -
  obtain t' where "advance rng i (SquareGen t) = SquareGen t'" "amplitude_m t' = amplitude_m t"
      "sampleCount_m t' = sampleCount_m t + of_nat i"
    using advance_SquareGen by blast
  then show ?thesis
    by (simp add: nth_sample_def SquareGen_nextSample_def Let_def)
qed

lemma sgn_val_eq_sgn: "real_of_int (sgn_val x) = sgn x"
  by (simp add: sgn_val_def sgn_real_def)

subsection \<open>Sine\<close>

text \<open>
  C2, as amended. A freshly constructed \<open>SineGen\<close> with amplitude \<open>a\<close> returns, at call
  number \<open>i\<close> (from 0), the value \<open>a * sin (f / 16)\<close>, where \<open>f\<close> is \<open>i mod 2 ^ 32\<close> rounded
  to a float, whatever the random library is: the output is a function of \<open>a\<close> and \<open>i\<close>
  alone. For every \<open>i\<close> up to \<open>2 ^ 24\<close> this is \<open>a * sin (i / 16)\<close>.
\<close>

theorem SineGen_nth_sample:
  "nth_sample rng i (SineGen_ctor a) = a * sin (float_of_nat (i mod 2 ^ 32) / 16)
   \<and> (i \<le> 2 ^ 24 \<longrightarrow> nth_sample rng i (SineGen_ctor a) = a * sin (real i / 16))"
  by (simp add: nth_sample_SineGen SineGen_ctor_def ToneGen_ctor_def static_cast_float_of_nat
      float_of_nat_exact)

text \<open>The theorem of C2 at amplitude 2 and index 5.\<close>

theorem SineGen_nth_sample_witness:
  "(5::nat) \<le> 2 ^ 24 \<and> nth_sample sim_random 5 (SineGen_ctor 2) = 2 * sin (real 5 / 16)"
  using SineGen_nth_sample [of sim_random 5 2] by simp

text \<open>
  C2 as stated, for every index, fails at index 16777261, the counter being rounded to
  the float 16777260: the sample is \<open>sin (16777260 / 16)\<close>, which is positive, and
  \<open>sin (16777261 / 16)\<close> is negative. It fails again at index \<open>2 ^ 32\<close>: the counter has
  wrapped to 0, the sample is \<open>sin 0 = 0\<close>, and \<open>sin (2 ^ 32 / 16)\<close> is not 0.
\<close>

theorem SineGen_wrap_counterexample:
  "nth_sample sim_random 16777261 (SineGen_ctor 1) \<noteq> 1 * sin (real 16777261 / 16)
   \<and> nth_sample sim_random (2 ^ 32) (SineGen_ctor 1) \<noteq> 1 * sin (real (2 ^ 32) / 16)"
proof -
  have "nth_sample sim_random 16777261 (SineGen_ctor 1) = sin (16777260 / 16)"
    by (simp add: nth_sample_SineGen SineGen_ctor_def ToneGen_ctor_def
        static_cast_float_16777261)
  with sin_cast_pos sin_cast_neg
  have a: "nth_sample sim_random 16777261 (SineGen_ctor 1) \<noteq> 1 * sin (real 16777261 / 16)"
    by simp
  from sin_2_28
  have b: "nth_sample sim_random (2 ^ 32) (SineGen_ctor 1) \<noteq> 1 * sin (real (2 ^ 32) / 16)"
    by (simp add: nth_sample_SineGen SineGen_ctor_def ToneGen_ctor_def
        static_cast_float_4294967296)
  show ?thesis
    by (rule conjI [OF a b])
qed

subsection \<open>Square\<close>

text \<open>
  C3, as amended. A freshly constructed \<open>SquareGen\<close> with amplitude \<open>a\<close> returns, at call
  number \<open>i\<close>, the value \<open>a * sign (sin (f / 16))\<close>, where \<open>f\<close> is \<open>i mod 2 ^ 32\<close> rounded to
  a float and \<open>sign\<close> is \<open>+1\<close>, \<open>-1\<close> or \<open>0\<close> as its argument is positive, negative or
  zero; the value is one of \<open>-a\<close>, \<open>0\<close>, \<open>a\<close>; and for every \<open>i\<close> up to \<open>2 ^ 24\<close> it is
  \<open>a * sign (sin (i / 16))\<close>.
\<close>

theorem SquareGen_nth_sample:
  "nth_sample rng i (SquareGen_ctor a) = a * sgn (sin (float_of_nat (i mod 2 ^ 32) / 16))
   \<and> nth_sample rng i (SquareGen_ctor a) \<in> {- a, 0, a}
   \<and> (i \<le> 2 ^ 24 \<longrightarrow> nth_sample rng i (SquareGen_ctor a) = a * sgn (sin (real i / 16)))"
  by (simp add: nth_sample_SquareGen SquareGen_ctor_def ToneGen_ctor_def static_cast_float_of_nat
      float_of_nat_exact sgn_val_eq_sgn sgn_real_def)

text \<open>The theorem of C3 at amplitude 2 and index 5.\<close>

theorem SquareGen_nth_sample_witness:
  "(5::nat) \<le> 2 ^ 24 \<and> nth_sample sim_random 5 (SquareGen_ctor 2) = 2 * sgn (sin (real 5 / 16))"
  using SquareGen_nth_sample [of sim_random 5 2] by simp

text \<open>
  C3 as stated, for every index, fails at index 16777261, the counter being rounded to
  the float 16777260: the sample is \<open>sign (sin (16777260 / 16)) = 1\<close>, and the sign of
  \<open>sin (16777261 / 16)\<close> is \<open>-1\<close>. It fails again at index \<open>2 ^ 32\<close>: the sample is
  \<open>sign (sin 0) = 0\<close>, and the sign of \<open>sin (2 ^ 32 / 16)\<close> is not 0.
\<close>

theorem SquareGen_wrap_counterexample:
  "nth_sample sim_random 16777261 (SquareGen_ctor 1) \<noteq> 1 * sgn (sin (real 16777261 / 16))
   \<and> nth_sample sim_random (2 ^ 32) (SquareGen_ctor 1) \<noteq> 1 * sgn (sin (real (2 ^ 32) / 16))"
proof -
  have "nth_sample sim_random 16777261 (SquareGen_ctor 1) = sgn (sin (16777260 / 16))"
    by (simp add: nth_sample_SquareGen SquareGen_ctor_def ToneGen_ctor_def
        static_cast_float_16777261 sgn_val_eq_sgn)
  with sin_cast_pos sin_cast_neg
  have a: "nth_sample sim_random 16777261 (SquareGen_ctor 1) \<noteq> 1 * sgn (sin (real 16777261 / 16))"
    by (simp add: sgn_real_def)
  from sin_2_28
  have b: "nth_sample sim_random (2 ^ 32) (SquareGen_ctor 1) \<noteq> 1 * sgn (sin (real (2 ^ 32) / 16))"
    by (simp add: nth_sample_SquareGen SquareGen_ctor_def ToneGen_ctor_def
        static_cast_float_4294967296 sgn_val_eq_sgn sgn_real_def)
  show ?thesis
    by (rule conjI [OF a b])
qed

subsection \<open>The sample counter\<close>

text \<open>
  C8, as amended. One call of \<open>nextSample\<close> on a \<open>SineGen\<close> or a \<open>SquareGen\<close> adds exactly
  one to the sample counter, modulo \<open>2 ^ 32\<close>: from \<open>2 ^ 32 - 1\<close> it goes back to 0 and
  nothing corrects that. A call on a \<open>WhiteNoiseGen\<close> leaves the counter as it is.
\<close>

theorem sampleCount_step:
  "sampleCount_m (base (snd (nextSample rng (SineGen t)))) = sampleCount_m t + 1
   \<and> unat (sampleCount_m (base (snd (nextSample rng (SineGen t)))))
       = (unat (sampleCount_m t) + 1) mod 2 ^ 32
   \<and> sampleCount_m (base (snd (nextSample rng (SquareGen t)))) = sampleCount_m t + 1
   \<and> unat (sampleCount_m (base (snd (nextSample rng (SquareGen t)))))
       = (unat (sampleCount_m t) + 1) mod 2 ^ 32
   \<and> sampleCount_m (base (snd (nextSample rng (WhiteNoiseGen t g lo hi)))) = sampleCount_m t"
  by (simp add: SineGen_nextSample_def SquareGen_nextSample_def Let_def unat_word_ariths
      split: prod.splits)

text \<open>
  C8 as stated, for every variant, fails for the noise generator: after a call on a new
  \<open>WhiteNoiseGen\<close> the counter is not one more than before (it is still 0).
\<close>

theorem WhiteNoiseGen_count_counterexample:
  "sampleCount_m (base (snd (nextSample sim_random (WhiteNoiseGen_ctor sim_random (1 / 4)))))
     \<noteq> sampleCount_m (base (WhiteNoiseGen_ctor sim_random (1 / 4))) + 1"
  by (simp add: WhiteNoiseGen_ctor_def ToneGen_ctor_def split: prod.splits)

subsection \<open>White noise\<close>

text \<open>The reference engine keeps the promise of the standard.\<close>

lemma minstd_canonical_unit:
  "0 \<le> minstd_canonical (minstd_next g) \<and> minstd_canonical (minstd_next g) \<le> 1"
proof -
  have "minstd_next g < 2147483647"
    by (simp add: minstd_next_def)
  then have "real (minstd_next g - 1) \<le> 2147483646"
    by simp
  then show ?thesis
    by (simp add: minstd_canonical_def)
qed

lemma sim_random_within_bounds: "draws_within_bounds sim_random"
proof -
  have "lo \<le> u * (hi - lo) + lo \<and> u * (hi - lo) + lo \<le> hi"
    if "lo \<le> hi" "0 \<le> u" "u \<le> 1" for lo hi u :: real
  proof
    from that show "lo \<le> u * (hi - lo) + lo" by simp
    from that have "u * (hi - lo) \<le> 1 * (hi - lo)"
      by (intro mult_right_mono) simp_all
    then show "u * (hi - lo) + lo \<le> hi" by simp
  qed
  then show ?thesis
    using minstd_canonical_unit by (simp add: draws_within_bounds_def sim_random_def)
qed

lemma fst_nextSample_WhiteNoiseGen:
  "fst (nextSample rng (WhiteNoiseGen t g lo hi)) = fst (uniform_real_distribution rng lo hi g)"
  by (simp split: prod.splits)

lemma WhiteNoiseGen_within:
  assumes "0 \<le> a" and "draws_within_bounds rng"
  shows "- a \<le> nth_sample rng i (WhiteNoiseGen_ctor rng a)
       \<and> nth_sample rng i (WhiteNoiseGen_ctor rng a) \<le> a"
proof -
  obtain g' where g': "advance rng i (WhiteNoiseGen_ctor rng a) = WhiteNoiseGen (ToneGen_ctor a) g' (- a) a"
    unfolding WhiteNoiseGen_ctor_def
    using advance_WhiteNoiseGen [of rng i "ToneGen_ctor a" "default_random_engine rng" "- a" a]
    by blast
  have "- a \<le> a" using assms(1) by simp
  with assms(2) have "- a \<le> fst (uniform_real_distribution rng (- a) a g')"
      "fst (uniform_real_distribution rng (- a) a g') \<le> a"
    unfolding draws_within_bounds_def by blast+
  then show ?thesis
    by (simp only: nth_sample_def g' fst_nextSample_WhiteNoiseGen)
qed

lemma sim_random_between_bounds: "draws_between_bounds sim_random"
proof -
  have "min lo hi \<le> u * (hi - lo) + lo \<and> u * (hi - lo) + lo \<le> max lo hi"
    if "0 \<le> u" "u \<le> 1" for lo hi u :: real
  proof (cases "lo \<le> hi")
    case True
    with that have "u * (hi - lo) \<le> 1 * (hi - lo)"
      by (intro mult_right_mono) simp_all
    with True that show ?thesis by simp
  next
    case False
    with that have "u * (lo - hi) \<le> 1 * (lo - hi)"
      by (intro mult_right_mono) simp_all
    moreover have "0 \<le> u * (lo - hi)"
      using False that by simp
    ultimately show ?thesis
      using False by (simp add: algebra_simps)
  qed
  then show ?thesis
    using minstd_canonical_unit by (simp add: draws_between_bounds_def sim_random_def)
qed

lemma WhiteNoiseGen_between:
  assumes "draws_between_bounds rng"
  shows "- \<bar>a\<bar> \<le> nth_sample rng i (WhiteNoiseGen_ctor rng a)
       \<and> nth_sample rng i (WhiteNoiseGen_ctor rng a) \<le> \<bar>a\<bar>"
proof -
  obtain g' where g': "advance rng i (WhiteNoiseGen_ctor rng a) = WhiteNoiseGen (ToneGen_ctor a) g' (- a) a"
    unfolding WhiteNoiseGen_ctor_def
    using advance_WhiteNoiseGen [of rng i "ToneGen_ctor a" "default_random_engine rng" "- a" a]
    by blast
  from assms have "min (- a) a \<le> fst (uniform_real_distribution rng (- a) a g')"
      "fst (uniform_real_distribution rng (- a) a g') \<le> max (- a) a"
    unfolding draws_between_bounds_def by blast+
  moreover have "min (- a) a = - \<bar>a\<bar>" "max (- a) a = \<bar>a\<bar>"
    by simp_all
  ultimately show ?thesis
    by (simp only: nth_sample_def g' fst_nextSample_WhiteNoiseGen)
qed

text \<open>
  C7. Every sample of a \<open>WhiteNoiseGen\<close> constructed with amplitude \<open>a\<close> lies in the
  interval between \<open>-a\<close> and \<open>a\<close>: the constructor hands the bounds \<open>(-a, a)\<close> to the
  distribution and \<open>nextSample\<close> returns the draw as it is. For \<open>a \<ge> 0\<close> this needs of the
  random library only the standard's promise for bounds in order. For every \<open>a\<close>, negative
  ones too, where the bounds reach the distribution in reverse, it holds with a library
  whose draws lie between the two bounds whatever their order. The default amplitudes are
  1 for \<open>SineGen\<close> and \<open>SquareGen\<close> and 0.25 for \<open>WhiteNoiseGen\<close>.
\<close>

theorem WhiteNoiseGen_range:
  "(0 \<le> a \<longrightarrow> draws_within_bounds rng \<longrightarrow>
      - a \<le> nth_sample rng i (WhiteNoiseGen_ctor rng a)
      \<and> nth_sample rng i (WhiteNoiseGen_ctor rng a) \<le> a)
   \<and> (draws_between_bounds rng \<longrightarrow>
      - \<bar>a\<bar> \<le> nth_sample rng i (WhiteNoiseGen_ctor rng a)
      \<and> nth_sample rng i (WhiteNoiseGen_ctor rng a) \<le> \<bar>a\<bar>)
   \<and> amplitude_m (base (SineGen_ctor SineGen_default_a :: 'g ToneGenObj)) = 1
   \<and> amplitude_m (base (SquareGen_ctor SquareGen_default_a :: 'g ToneGenObj)) = 1
   \<and> amplitude_m (base (WhiteNoiseGen_ctor rng WhiteNoiseGen_default_a)) = 1 / 4"
proof -
  have r: "0 \<le> a \<longrightarrow> draws_within_bounds rng \<longrightarrow>
      - a \<le> nth_sample rng i (WhiteNoiseGen_ctor rng a)
      \<and> nth_sample rng i (WhiteNoiseGen_ctor rng a) \<le> a"
    by (intro impI) (rule WhiteNoiseGen_within)
  have b: "draws_between_bounds rng \<longrightarrow>
      - \<bar>a\<bar> \<le> nth_sample rng i (WhiteNoiseGen_ctor rng a)
      \<and> nth_sample rng i (WhiteNoiseGen_ctor rng a) \<le> \<bar>a\<bar>"
    by (intro impI) (rule WhiteNoiseGen_between)
  have d: "amplitude_m (base (SineGen_ctor SineGen_default_a :: 'g ToneGenObj)) = 1"
      "amplitude_m (base (SquareGen_ctor SquareGen_default_a :: 'g ToneGenObj)) = 1"
      "amplitude_m (base (WhiteNoiseGen_ctor rng WhiteNoiseGen_default_a)) = 1 / 4"
    by (simp_all add: SineGen_ctor_def SquareGen_ctor_def WhiteNoiseGen_ctor_def ToneGen_ctor_def
        SineGen_default_a_def SquareGen_default_a_def WhiteNoiseGen_default_a_def)
  show ?thesis
    by (rule conjI [OF r conjI [OF b conjI [OF d(1) conjI [OF d(2) d(3)]]]])
qed

text \<open>
  The theorem of C7 on the reference engine: the third sample at amplitude 0.25, and the
  first sample at amplitude \<open>-1\<close>.
\<close>

theorem WhiteNoiseGen_range_witness:
  "(0::real) \<le> 1 / 4 \<and> draws_within_bounds sim_random
   \<and> - (1 / 4) \<le> nth_sample sim_random 2 (WhiteNoiseGen_ctor sim_random (1 / 4))
   \<and> nth_sample sim_random 2 (WhiteNoiseGen_ctor sim_random (1 / 4)) \<le> 1 / 4
   \<and> draws_between_bounds sim_random
   \<and> - \<bar>- 1\<bar> \<le> nth_sample sim_random 0 (WhiteNoiseGen_ctor sim_random (- 1))
   \<and> nth_sample sim_random 0 (WhiteNoiseGen_ctor sim_random (- 1)) \<le> \<bar>- 1\<bar>"
proof -
  have a: "(0::real) \<le> 1 / 4" by simp
  note r = WhiteNoiseGen_range [THEN conjunct1, rule_format, OF a sim_random_within_bounds, of 2]
  note b = WhiteNoiseGen_range [THEN conjunct2, THEN conjunct1, rule_format,
      OF sim_random_between_bounds, of "- 1" 0]
  show ?thesis
    by (intro conjI a sim_random_within_bounds r [THEN conjunct1] r [THEN conjunct2]
        sim_random_between_bounds b [THEN conjunct1] b [THEN conjunct2])
qed

section \<open>The store\<close>

lemma lookup_update_same: "p < length h \<Longrightarrow> lookup (h[p := x]) p = x"
  by (simp add: lookup_def)

lemma lookup_update_other: "p \<noteq> q \<Longrightarrow> lookup (h[p := x]) q = lookup h q"
  by (simp add: lookup_def)

lemma lookup_Some_length: "lookup h p = Some g \<Longrightarrow> p < length h"
  by (simp add: lookup_def split: if_splits)

lemma call_nextSample_Some:
  "lookup h p = Some g \<Longrightarrow>
   call_nextSample rng h p = Some (fst (nextSample rng g), h[p := Some (snd (nextSample rng g))])"
  by (simp add: call_nextSample_def split: prod.splits)

lemma lookup_put_same: "lookup (put h p obj) p = Some obj"
  by (simp add: put_def lookup_def nth_append)

lemma lookup_put_other: "q \<noteq> p \<Longrightarrow> lookup (put h p obj) q = lookup h q"
  by (auto simp: put_def lookup_def nth_append)

lemma lookup_new_same: "new al h obj = (p, h') \<Longrightarrow> lookup h' p = Some obj"
  by (auto simp: new_def lookup_put_same)

lemma lookup_new_other: "new al h obj = (p, h') \<Longrightarrow> q \<noteq> p \<Longrightarrow> lookup h' q = lookup h q"
  by (auto simp: new_def lookup_put_other)

lemma lookup_delete_same: "lookup (delete h p) p = None"
  by (simp add: lookup_def delete_def)

lemma lookup_delete_other: "q \<noteq> p \<Longrightarrow> lookup (delete h p) q = lookup h q"
  by (simp add: lookup_def delete_def)

lemma live_append: "live (h @ h') = live h + live h'"
  by (simp add: live_def)

lemma live_replicate_None: "live (replicate n None) = 0"
  by (simp add: live_def)

lemma live_update:
  assumes "p < length h"
  shows "live (h[p := c]) + (if h ! p = None then 0 else 1) = live h + (if c = None then 0 else 1)"
proof -
  have "live h = live (take p h @ h ! p # drop (Suc p) h)"
    by (rule arg_cong [OF id_take_nth_drop [OF assms]])
  also have "\<dots> = live (take p h) + (if h ! p = None then 0 else 1) + live (drop (Suc p) h)"
    by (simp add: live_def)
  finally have h: "live h = live (take p h) + (if h ! p = None then 0 else 1) + live (drop (Suc p) h)" .
  have "h[p := c] = take p h @ c # drop (Suc p) h"
    using assms by (rule upd_conv_take_nth_drop)
  then have "live (h[p := c]) = live (take p h) + (if c = None then 0 else 1) + live (drop (Suc p) h)"
    by (simp add: live_def)
  with h show ?thesis by simp
qed

lemma live_delete: "lookup h p = Some g \<Longrightarrow> Suc (live (delete h p)) = live h"
proof -
  assume l: "lookup h p = Some g"
  then have p: "p < length h" and n: "h ! p = Some g"
    by (simp_all add: lookup_def split: if_splits)
  from live_update [OF p, of None] n show ?thesis
    by (simp add: delete_def)
qed

lemma live_put: "lookup h p = None \<Longrightarrow> live (put h p obj) = Suc (live h)"
proof (cases "p < length h")
  case True
  assume "lookup h p = None"
  with True have "h ! p = None" by (simp add: lookup_def)
  with live_update [OF True, of "Some obj"] True show ?thesis
    by (simp add: put_def)
next
  case False
  then show ?thesis
    by (simp add: put_def live_append live_replicate_None) (simp add: live_def)
qed

lemma run_calls_one:
  assumes "lookup h p = Some g" and "set ps \<subseteq> {p}"
  shows "\<exists>tr h'. run_calls rng ps h = Some (tr, h')
           \<and> heard p tr = samples rng (count_list ps p) g"
  using assms
proof (induction ps arbitrary: h g)
  case Nil
  show ?case by (simp add: heard_def)
next
  case (Cons x ps)
  from Cons.prems(2) have x: "x = p" and ps: "set ps \<subseteq> {p}" by auto
  let ?h = "h[p := Some (snd (nextSample rng g))]"
  have c: "call_nextSample rng h p = Some (fst (nextSample rng g), ?h)"
    by (rule call_nextSample_Some [OF Cons.prems(1)])
  have lp: "lookup ?h p = Some (snd (nextSample rng g))"
    using Cons.prems(1) by (simp add: lookup_update_same lookup_Some_length)
  from Cons.IH [OF lp ps] obtain tr h' where
    "run_calls rng ps ?h = Some (tr, h')"
    "heard p tr = samples rng (count_list ps p) (snd (nextSample rng g))"
    by blast
  then show ?case
    by (simp add: x c heard_def)
qed

lemma run_calls_two:
  assumes "p \<noteq> q" and "lookup h p = Some gp" and "lookup h q = Some gq" and "set ps \<subseteq> {p, q}"
  shows "\<exists>tr h'. run_calls rng ps h = Some (tr, h')
           \<and> heard p tr = samples rng (count_list ps p) gp
           \<and> heard q tr = samples rng (count_list ps q) gq"
  using assms(2-4)
proof (induction ps arbitrary: h gp gq)
  case Nil
  show ?case by (simp add: heard_def)
next
  case (Cons x ps)
  from Cons.prems(3) have x: "x = p \<or> x = q" and ps: "set ps \<subseteq> {p, q}" by auto
  from x show ?case
  proof
    assume xp: "x = p"
    let ?h = "h[p := Some (snd (nextSample rng gp))]"
    have c: "call_nextSample rng h p = Some (fst (nextSample rng gp), ?h)"
      by (rule call_nextSample_Some [OF Cons.prems(1)])
    have lp: "lookup ?h p = Some (snd (nextSample rng gp))"
      using Cons.prems(1) by (simp add: lookup_update_same lookup_Some_length)
    have lq: "lookup ?h q = Some gq"
      using Cons.prems(2) assms(1) by (simp add: lookup_update_other)
    from Cons.IH [OF lp lq ps] obtain tr h' where
      "run_calls rng ps ?h = Some (tr, h')"
      "heard p tr = samples rng (count_list ps p) (snd (nextSample rng gp))"
      "heard q tr = samples rng (count_list ps q) gq"
      by blast
    then show ?thesis
      using assms(1) by (simp add: xp c heard_def)
  next
    assume xq: "x = q"
    let ?h = "h[q := Some (snd (nextSample rng gq))]"
    have c: "call_nextSample rng h q = Some (fst (nextSample rng gq), ?h)"
      by (rule call_nextSample_Some [OF Cons.prems(2)])
    have lq: "lookup ?h q = Some (snd (nextSample rng gq))"
      using Cons.prems(2) by (simp add: lookup_update_same lookup_Some_length)
    have lp: "lookup ?h p = Some gp"
      using Cons.prems(1) assms(1) by (simp add: lookup_update_other)
    from Cons.IH [OF lp lq ps] obtain tr h' where
      "run_calls rng ps ?h = Some (tr, h')"
      "heard p tr = samples rng (count_list ps p) gp"
      "heard q tr = samples rng (count_list ps q) (snd (nextSample rng gq))"
      by blast
    then show ?thesis
      using assms(1) by (simp add: xq c heard_def)
  qed
qed

text \<open>The reference allocator returns an address that is not allocated.\<close>

lemma first_fit_free: "allocates_free first_fit"
proof -
  have "lookup h (first_fit h) = None" for h :: "'a heap"
  proof (induction h)
    case Nil
    show ?case by (simp add: lookup_def)
  next
    case (Cons c h)
    then show ?case
      by (cases c) (auto simp: lookup_def split: if_splits)
  qed
  then show ?thesis
    by (simp add: allocates_free_def)
qed

text \<open>
  C10. Two \<open>WhiteNoiseGen\<close> objects constructed one after the other with the same
  amplitude, wherever the allocator places them, then called in any interleaving: each
  returns the samples of the one sequence that the engine's default state and the
  amplitude determine, so after equally many calls they have returned the same samples.
  Nothing in the constructor seeds the engine per instance, and no call on one object
  changes the other.
\<close>

theorem WhiteNoiseGen_instances_agree:
  assumes "new al h0 (WhiteNoiseGen_ctor rng a) = (p, h1)"
    and "new al h1 (WhiteNoiseGen_ctor rng a) = (q, h2)"
    and "set ps \<subseteq> {p, q}"
  shows "\<exists>tr h3. run_calls rng ps h2 = Some (tr, h3)
           \<and> heard p tr = samples rng (count_list ps p) (WhiteNoiseGen_ctor rng a)
           \<and> heard q tr = samples rng (count_list ps q) (WhiteNoiseGen_ctor rng a)
           \<and> (count_list ps p = count_list ps q \<longrightarrow> heard p tr = heard q tr)"
proof -
  have lq: "lookup h2 q = Some (WhiteNoiseGen_ctor rng a)"
    by (rule lookup_new_same [OF assms(2)])
  have "\<exists>tr h3. run_calls rng ps h2 = Some (tr, h3)
           \<and> heard p tr = samples rng (count_list ps p) (WhiteNoiseGen_ctor rng a)
           \<and> heard q tr = samples rng (count_list ps q) (WhiteNoiseGen_ctor rng a)"
  proof (cases "p = q")
    case True
    from assms(3) have "set ps \<subseteq> {q}" unfolding True by simp
    from run_calls_one [OF lq this, of rng] show ?thesis
      unfolding True by blast
  next
    case False
    have lp: "lookup h2 p = Some (WhiteNoiseGen_ctor rng a)"
      using lookup_new_other [OF assms(2) False] lookup_new_same [OF assms(1)] by simp
    from run_calls_two [OF False lp lq assms(3), of rng] show ?thesis .
  qed
  then obtain tr h3 where
    r: "run_calls rng ps h2 = Some (tr, h3)"
      "heard p tr = samples rng (count_list ps p) (WhiteNoiseGen_ctor rng a)"
      "heard q tr = samples rng (count_list ps q) (WhiteNoiseGen_ctor rng a)"
    by blast
  from r(2,3) have "count_list ps p = count_list ps q \<longrightarrow> heard p tr = heard q tr"
    by simp
  with r show ?thesis
    by blast
qed

text \<open>
  The theorem of C10 on an empty store with the reference allocator, amplitude 0.25 and
  the calls first, second, second, first.
\<close>

theorem WhiteNoiseGen_instances_agree_witness:
  "new first_fit [] (WhiteNoiseGen_ctor sim_random (1 / 4))
     = (0, [Some (WhiteNoiseGen_ctor sim_random (1 / 4))])
   \<and> new first_fit [Some (WhiteNoiseGen_ctor sim_random (1 / 4))] (WhiteNoiseGen_ctor sim_random (1 / 4))
       = (1, [Some (WhiteNoiseGen_ctor sim_random (1 / 4)), Some (WhiteNoiseGen_ctor sim_random (1 / 4))])
   \<and> set [0, 1, 1, 0] \<subseteq> {0, 1 :: nat}
   \<and> (\<exists>tr h3. run_calls sim_random [0, 1, 1, 0]
                 [Some (WhiteNoiseGen_ctor sim_random (1 / 4)), Some (WhiteNoiseGen_ctor sim_random (1 / 4))]
                 = Some (tr, h3)
         \<and> heard 0 tr = heard 1 tr)"
proof -
  have n1: "new first_fit [] (WhiteNoiseGen_ctor sim_random (1 / 4))
      = (0, [Some (WhiteNoiseGen_ctor sim_random (1 / 4))])"
    by (simp add: new_def put_def)
  have n2: "new first_fit [Some (WhiteNoiseGen_ctor sim_random (1 / 4))] (WhiteNoiseGen_ctor sim_random (1 / 4))
       = (1, [Some (WhiteNoiseGen_ctor sim_random (1 / 4)), Some (WhiteNoiseGen_ctor sim_random (1 / 4))])"
    by (simp add: new_def put_def)
  have s: "set [0, 1, 1, 0] \<subseteq> {0, 1 :: nat}" by simp
  have c: "count_list [0, 1, 1, 0] (0::nat) = count_list [0, 1, 1, 0] (1::nat)" by simp
  from WhiteNoiseGen_instances_agree [OF n1 n2 s] c n1 n2 s show ?thesis
    by blast
qed

section \<open>The driver\<close>

subsection \<open>Misuse\<close>

text \<open>
  C4. \<open>start\<close> on a driver that is playing returns false and leaves the driver as it
  was, every member included; \<open>stop\<close> on a driver that is not playing does the same, and
  so does \<open>stop\<close> on a driver that was only constructed. Neither function reaches the
  generator objects, so the active generator is as it was too.
\<close>

theorem misuse_changes_nothing:
  "(playing_m pb \<longrightarrow> start be pb = (False, pb))
   \<and> (\<not> playing_m pb \<longrightarrow> stop be pb = (False, pb))
   \<and> stop be (SimplePlayback_ctor a0) = (False, SimplePlayback_ctor a0)"
  by (simp add: start_def stop_def SimplePlayback_ctor_def)

text \<open>
  The theorem of C4 on the reference backend: a second \<open>start\<close> after \<open>init\<close> and
  \<open>start\<close>, and a \<open>stop\<close> before any \<open>start\<close>.
\<close>

theorem misuse_changes_nothing_witness:
  "playing_m (snd (start sim_audio (snd (snd (init sim_audio sim_random first_fit 44100 1 0
      ([], SimplePlayback_ctor STREAM_CLOSED))))))
   \<and> start sim_audio (snd (start sim_audio (snd (snd (init sim_audio sim_random first_fit 44100 1 0
      ([], SimplePlayback_ctor STREAM_CLOSED))))))
     = (False, snd (start sim_audio (snd (snd (init sim_audio sim_random first_fit 44100 1 0
      ([], SimplePlayback_ctor STREAM_CLOSED))))))
   \<and> \<not> playing_m (SimplePlayback_ctor STREAM_CLOSED)
   \<and> stop sim_audio (SimplePlayback_ctor STREAM_CLOSED) = (False, SimplePlayback_ctor STREAM_CLOSED)"
proof -
  let ?pb = "snd (start sim_audio (snd (snd (init sim_audio sim_random first_fit 44100 1 0
      ([], SimplePlayback_ctor STREAM_CLOSED)))))"
  have p: "playing_m ?pb"
    by (simp add: start_def init_def sim_audio_def SimplePlayback_ctor_def Let_def new_def put_def)
  have q: "\<not> playing_m (SimplePlayback_ctor STREAM_CLOSED)"
    by (simp add: SimplePlayback_ctor_def)
  from p q misuse_changes_nothing [of ?pb sim_audio STREAM_CLOSED]
    misuse_changes_nothing [of "SimplePlayback_ctor STREAM_CLOSED" sim_audio STREAM_CLOSED]
  show ?thesis by blast
qed

subsection \<open>What \<open>init\<close> does in each case\<close>

lemma StreamParameters_all_updated:
  "(r::StreamParameters)\<lparr>deviceId := d, nChannels := n, firstChannel := c\<rparr>
     = \<lparr>deviceId = d, nChannels = n, firstChannel = c\<rparr>"
  by (cases r) simp

lemma init_Throws:
  "openStream be (audio_m pb)
      \<lparr>deviceId = getDefaultOutputDevice be (audio_m pb), nChannels = nch, firstChannel = 0\<rparr>
      sr (fs_m pb) = Throws e (a, f) \<Longrightarrow>
   init be rng al sr nch toneGen (h, pb) =
     (False, h, pb\<lparr>audio_m := a,
                   streamParameters_m :=
                     \<lparr>deviceId = getDefaultOutputDevice be (audio_m pb), nChannels = nch,
                      firstChannel = 0\<rparr>,
                   sr_m := sr, fs_m := f\<rparr>)"
  by (simp add: init_def Let_def StreamParameters_all_updated)

lemma init_Returns:
  "openStream be (audio_m pb)
      \<lparr>deviceId = getDefaultOutputDevice be (audio_m pb), nChannels = nch, firstChannel = 0\<rparr>
      sr (fs_m pb) = Returns (a, f) \<Longrightarrow>
   init be rng al sr nch toneGen (h, pb) =
     (True,
      snd (new al (case tg_m pb of None \<Rightarrow> h | Some p \<Rightarrow> delete h p)
             (if toneGen = 1 then SquareGen_ctor SquareGen_default_a
              else if toneGen = 2 then WhiteNoiseGen_ctor rng WhiteNoiseGen_default_a
              else SineGen_ctor SineGen_default_a)),
      pb\<lparr>audio_m := a,
         streamParameters_m :=
           \<lparr>deviceId = getDefaultOutputDevice be (audio_m pb), nChannels = nch,
            firstChannel = 0\<rparr>,
         sr_m := sr, fs_m := f,
         tg_m := Some (fst (new al (case tg_m pb of None \<Rightarrow> h | Some p \<Rightarrow> delete h p)
             (if toneGen = 1 then SquareGen_ctor SquareGen_default_a
              else if toneGen = 2 then WhiteNoiseGen_ctor rng WhiteNoiseGen_default_a
              else SineGen_ctor SineGen_default_a)))\<rparr>)"
  by (simp add: init_def Let_def StreamParameters_all_updated split: prod.splits)

lemma call_cases:
  obtains (Returns) r where "c = Returns r" | (Throws) e r where "c = Throws e r"
  by (cases c) auto

lemma init_fails_iff:
  "fst (init be rng al sr nch toneGen (h, pb)) = False \<longleftrightarrow>
   (\<exists>e r. openStream be (audio_m pb)
             \<lparr>deviceId = getDefaultOutputDevice be (audio_m pb), nChannels = nch, firstChannel = 0\<rparr>
             sr (fs_m pb) = Throws e r)"
proof (cases "openStream be (audio_m pb)
             \<lparr>deviceId = getDefaultOutputDevice be (audio_m pb), nChannels = nch, firstChannel = 0\<rparr>
             sr (fs_m pb)" rule: call_cases)
  case (Returns r)
  obtain a f where "r = (a, f)" by (cases r)
  with Returns show ?thesis by (simp add: init_Returns)
next
  case (Throws e r)
  obtain a f where "r = (a, f)" by (cases r)
  with Throws show ?thesis by (simp add: init_Throws)
qed

lemma init_failure_state:
  assumes "init be rng al sr nch toneGen (h, pb) = (False, h', pb')"
  shows "h' = h \<and> playing_m pb' = playing_m pb \<and> tg_m pb' = tg_m pb \<and> sr_m pb' = sr
       \<and> streamParameters_m pb' =
           \<lparr>deviceId = getDefaultOutputDevice be (audio_m pb), nChannels = nch, firstChannel = 0\<rparr>"
proof -
  from assms have "fst (init be rng al sr nch toneGen (h, pb)) = False" by simp
  then obtain e r where "openStream be (audio_m pb)
             \<lparr>deviceId = getDefaultOutputDevice be (audio_m pb), nChannels = nch, firstChannel = 0\<rparr>
             sr (fs_m pb) = Throws e r"
    unfolding init_fails_iff by blast
  moreover obtain a f where "r = (a, f)" by (cases r)
  ultimately show ?thesis
    using assms by (auto simp: init_Throws)
qed

lemma start_fails_iff:
  "\<not> playing_m pb \<Longrightarrow>
   fst (start be pb) = False \<longleftrightarrow> (\<exists>e a. startStream be (audio_m pb) = Throws e a)"
  by (cases "startStream be (audio_m pb)") (simp_all add: start_def)

lemma start_failure_state:
  "start be pb = (False, pb') \<Longrightarrow> pb' = pb\<lparr>audio_m := audio_m pb'\<rparr>"
  by (cases "startStream be (audio_m pb)") (auto simp: start_def split: if_splits)

lemma stop_Throws:
  "playing_m pb \<Longrightarrow> stopStream be (audio_m pb) = Throws e a \<Longrightarrow>
   stop be pb = (False, pb\<lparr>audio_m := a\<rparr>)"
  by (simp add: stop_def)

lemma stop_close_Throws:
  "playing_m pb \<Longrightarrow> stopStream be (audio_m pb) = Returns a \<Longrightarrow> isStreamOpen be a \<Longrightarrow>
   closeStream be a = Throws e a' \<Longrightarrow>
   stop be pb = (False, pb\<lparr>audio_m := a', playing_m := False\<rparr>)"
  by (simp add: stop_def)

lemma stop_fails_iff:
  assumes "playing_m pb"
  shows "fst (stop be pb) = False \<longleftrightarrow>
     (\<exists>e a. stopStream be (audio_m pb) = Throws e a)
     \<or> (\<exists>a e a'. stopStream be (audio_m pb) = Returns a \<and> isStreamOpen be a
           \<and> closeStream be a = Throws e a')"
proof (cases "stopStream be (audio_m pb)")
  case (Throws e a)
  with assms show ?thesis by (simp add: stop_def)
next
  case (Returns a)
  show ?thesis
  proof (cases "isStreamOpen be a")
    case False
    with assms Returns show ?thesis by (simp add: stop_def)
  next
    case True
    with assms Returns show ?thesis
      by (cases "closeStream be a") (simp_all add: stop_def)
  qed
qed

lemma stop_failure_state:
  assumes "stop be pb = (False, pb')"
  shows "tg_m pb' = tg_m pb \<and> sr_m pb' = sr_m pb \<and> fs_m pb' = fs_m pb
       \<and> streamParameters_m pb' = streamParameters_m pb
       \<and> (playing_m pb' = playing_m pb
          \<or> (\<exists>a e a'. stopStream be (audio_m pb) = Returns a \<and> isStreamOpen be a
                \<and> closeStream be a = Throws e a'))"
proof (cases "playing_m pb")
  case False
  with assms show ?thesis by (simp add: stop_def)
next
  case True
  show ?thesis
  proof (cases "stopStream be (audio_m pb)")
    case (Throws e a)
    with True assms show ?thesis by (auto simp: stop_def)
  next
    case (Returns a)
    show ?thesis
    proof (cases "closeStream be a")
      case (Returns a')
      with True \<open>stopStream be (audio_m pb) = Returns a\<close> assms show ?thesis
        by (auto simp: stop_def Let_def split: if_splits)
    next
      case (Throws e a')
      with True \<open>stopStream be (audio_m pb) = Returns a\<close> assms show ?thesis
        by (auto simp: stop_def Let_def split: if_splits)
    qed
  qed
qed

subsection \<open>Failures of the backend\<close>

text \<open>
  C5, as amended. An exception of the backend never leaves \<open>init\<close>, \<open>start\<close> or \<open>stop\<close>:
  the call returns false. \<open>init\<close> returns false exactly when \<open>openStream\<close> throws; the
  store of generators, \<open>playing_\<close> and \<open>tg_\<close> are then as before, while \<open>sr_\<close> and
  \<open>streamParameters_\<close> already hold the requested values. \<open>start\<close> on a driver that is
  not playing returns false exactly when \<open>startStream\<close> throws, and a failed \<open>start\<close>
  changes no member but the backend's own state. \<open>stop\<close> on a playing driver returns
  false exactly when \<open>stopStream\<close> throws, or \<open>stopStream\<close> returns, the stream is open
  and \<open>closeStream\<close> throws. In the first case no member changes but the backend's state;
  in the second \<open>playing_\<close> is false already. A failed \<open>stop\<close> leaves \<open>tg_\<close>, \<open>sr_\<close>,
  \<open>fs_\<close> and \<open>streamParameters_\<close> as they were, and \<open>playing_\<close> too unless it was
  \<open>closeStream\<close> that threw.
\<close>

theorem failure_is_reported:
  "(fst (init be rng al sr nch toneGen (h, pb)) = False \<longleftrightarrow>
      (\<exists>e r. openStream be (audio_m pb)
         \<lparr>deviceId = getDefaultOutputDevice be (audio_m pb), nChannels = nch, firstChannel = 0\<rparr>
         sr (fs_m pb) = Throws e r))
   \<and> (init be rng al sr nch toneGen (h, pb) = (False, h', pb') \<longrightarrow>
        h' = h \<and> playing_m pb' = playing_m pb \<and> tg_m pb' = tg_m pb \<and> sr_m pb' = sr
        \<and> streamParameters_m pb' =
            \<lparr>deviceId = getDefaultOutputDevice be (audio_m pb), nChannels = nch, firstChannel = 0\<rparr>)
   \<and> (\<not> playing_m pb \<longrightarrow>
        (fst (start be pb) = False \<longleftrightarrow> (\<exists>e a. startStream be (audio_m pb) = Throws e a)))
   \<and> (start be pb = (False, pb1) \<longrightarrow> pb1 = pb\<lparr>audio_m := audio_m pb1\<rparr>)
   \<and> (playing_m pb \<longrightarrow>
        (\<forall>e a. stopStream be (audio_m pb) = Throws e a \<longrightarrow> stop be pb = (False, pb\<lparr>audio_m := a\<rparr>)))
   \<and> (stop be pb = (False, pb2) \<longrightarrow>
        tg_m pb2 = tg_m pb \<and> sr_m pb2 = sr_m pb \<and> fs_m pb2 = fs_m pb
        \<and> streamParameters_m pb2 = streamParameters_m pb
        \<and> (playing_m pb2 = playing_m pb
           \<or> (\<exists>a e a'. stopStream be (audio_m pb) = Returns a \<and> isStreamOpen be a
                 \<and> closeStream be a = Throws e a')))
   \<and> (playing_m pb \<longrightarrow>
        (fst (stop be pb) = False \<longleftrightarrow>
           (\<exists>e a. stopStream be (audio_m pb) = Throws e a)
           \<or> (\<exists>a e a'. stopStream be (audio_m pb) = Returns a \<and> isStreamOpen be a
                 \<and> closeStream be a = Throws e a')))
   \<and> (playing_m pb \<longrightarrow>
        (\<forall>a e a'. stopStream be (audio_m pb) = Returns a \<longrightarrow> isStreamOpen be a \<longrightarrow>
           closeStream be a = Throws e a' \<longrightarrow>
           stop be pb = (False, pb\<lparr>audio_m := a', playing_m := False\<rparr>)))"
proof -
  have c1: "fst (init be rng al sr nch toneGen (h, pb)) = False \<longleftrightarrow>
      (\<exists>e r. openStream be (audio_m pb)
         \<lparr>deviceId = getDefaultOutputDevice be (audio_m pb), nChannels = nch, firstChannel = 0\<rparr>
         sr (fs_m pb) = Throws e r)"
    by (rule init_fails_iff)
  have c2: "init be rng al sr nch toneGen (h, pb) = (False, h', pb') \<longrightarrow>
        h' = h \<and> playing_m pb' = playing_m pb \<and> tg_m pb' = tg_m pb \<and> sr_m pb' = sr
        \<and> streamParameters_m pb' =
            \<lparr>deviceId = getDefaultOutputDevice be (audio_m pb), nChannels = nch, firstChannel = 0\<rparr>"
    by (intro impI) (rule init_failure_state)
  have c3: "\<not> playing_m pb \<longrightarrow>
        (fst (start be pb) = False \<longleftrightarrow> (\<exists>e a. startStream be (audio_m pb) = Throws e a))"
    by (intro impI) (rule start_fails_iff)
  have c4: "start be pb = (False, pb1) \<longrightarrow> pb1 = pb\<lparr>audio_m := audio_m pb1\<rparr>"
    by (intro impI) (rule start_failure_state)
  have c5: "playing_m pb \<longrightarrow>
        (\<forall>e a. stopStream be (audio_m pb) = Throws e a \<longrightarrow> stop be pb = (False, pb\<lparr>audio_m := a\<rparr>))"
    by (intro impI allI) (rule stop_Throws)
  have c6: "stop be pb = (False, pb2) \<longrightarrow>
        tg_m pb2 = tg_m pb \<and> sr_m pb2 = sr_m pb \<and> fs_m pb2 = fs_m pb
        \<and> streamParameters_m pb2 = streamParameters_m pb
        \<and> (playing_m pb2 = playing_m pb
           \<or> (\<exists>a e a'. stopStream be (audio_m pb) = Returns a \<and> isStreamOpen be a
                 \<and> closeStream be a = Throws e a'))"
    by (intro impI) (rule stop_failure_state)
  have c7: "playing_m pb \<longrightarrow>
        (fst (stop be pb) = False \<longleftrightarrow>
           (\<exists>e a. stopStream be (audio_m pb) = Throws e a)
           \<or> (\<exists>a e a'. stopStream be (audio_m pb) = Returns a \<and> isStreamOpen be a
                 \<and> closeStream be a = Throws e a'))"
    by (intro impI) (rule stop_fails_iff)
  have c8: "playing_m pb \<longrightarrow>
        (\<forall>a e a'. stopStream be (audio_m pb) = Returns a \<longrightarrow> isStreamOpen be a \<longrightarrow>
           closeStream be a = Throws e a' \<longrightarrow>
           stop be pb = (False, pb\<lparr>audio_m := a', playing_m := False\<rparr>))"
    by (intro impI allI) (rule stop_close_Throws)
  show ?thesis
    by (rule conjI [OF c1 conjI [OF c2 conjI [OF c3 conjI [OF c4 conjI [OF c5 conjI [OF c6
          conjI [OF c7 c8]]]]]]])
qed

text \<open>
  The theorem of C5 on a new driver with the reference backend: \<open>init\<close> asking for no
  channel, \<open>start\<close> without an open stream, \<open>stop\<close> of a playing driver whose device is
  gone, and \<open>stop\<close> of a playing driver whose stream cannot be closed.
\<close>

theorem failure_is_reported_witness:
  "openStream sim_audio (audio_m (SimplePlayback_ctor STREAM_CLOSED))
      \<lparr>deviceId = getDefaultOutputDevice sim_audio (audio_m (SimplePlayback_ctor STREAM_CLOSED)),
       nChannels = 0, firstChannel = 0\<rparr> 44100 (fs_m (SimplePlayback_ctor STREAM_CLOSED))
     = Throws (RtAudioError ''invalid stream parameters'') (STREAM_CLOSED, 512)
   \<and> fst (init sim_audio sim_random first_fit 44100 0 0 ([], SimplePlayback_ctor STREAM_CLOSED)) = False
   \<and> init sim_audio sim_random first_fit 44100 0 0 ([], SimplePlayback_ctor STREAM_CLOSED)
       = (False, [], (SimplePlayback_ctor STREAM_CLOSED)\<lparr>sr_m := 44100\<rparr>)
   \<and> tg_m ((SimplePlayback_ctor STREAM_CLOSED)\<lparr>sr_m := 44100\<rparr>)
       = tg_m (SimplePlayback_ctor STREAM_CLOSED)
   \<and> \<not> playing_m (SimplePlayback_ctor STREAM_CLOSED)
   \<and> startStream sim_audio (audio_m (SimplePlayback_ctor STREAM_CLOSED))
       = Throws (RtAudioError ''no open stream'') STREAM_CLOSED
   \<and> fst (start sim_audio (SimplePlayback_ctor STREAM_CLOSED)) = False
   \<and> playing_m \<lparr>audio_m = STREAM_RUNNING,
         streamParameters_m = \<lparr>deviceId = 0, nChannels = 1, firstChannel = 0\<rparr>,
         playing_m = True, sr_m = 44100, fs_m = 512, tg_m = Some 0\<rparr>
   \<and> stopStream lost_audio STREAM_RUNNING
       = Throws (RtAudioError ''device disconnected'') STREAM_RUNNING
   \<and> stop lost_audio \<lparr>audio_m = STREAM_RUNNING,
         streamParameters_m = \<lparr>deviceId = 0, nChannels = 1, firstChannel = 0\<rparr>,
         playing_m = True, sr_m = 44100, fs_m = 512, tg_m = Some 0\<rparr>
       = (False, \<lparr>audio_m = STREAM_RUNNING,
           streamParameters_m = \<lparr>deviceId = 0, nChannels = 1, firstChannel = 0\<rparr>,
           playing_m = True, sr_m = 44100, fs_m = 512, tg_m = Some 0\<rparr>)
   \<and> stopStream unclosable_audio STREAM_RUNNING = Returns STREAM_STOPPED
   \<and> isStreamOpen unclosable_audio STREAM_STOPPED
   \<and> closeStream unclosable_audio STREAM_STOPPED
       = Throws (RtAudioError ''cannot close the device'') STREAM_STOPPED
   \<and> fst (stop unclosable_audio \<lparr>audio_m = STREAM_RUNNING,
         streamParameters_m = \<lparr>deviceId = 0, nChannels = 1, firstChannel = 0\<rparr>,
         playing_m = True, sr_m = 44100, fs_m = 512, tg_m = Some 0\<rparr>) = False
   \<and> stop unclosable_audio \<lparr>audio_m = STREAM_RUNNING,
         streamParameters_m = \<lparr>deviceId = 0, nChannels = 1, firstChannel = 0\<rparr>,
         playing_m = True, sr_m = 44100, fs_m = 512, tg_m = Some 0\<rparr>
       = (False, \<lparr>audio_m = STREAM_STOPPED,
           streamParameters_m = \<lparr>deviceId = 0, nChannels = 1, firstChannel = 0\<rparr>,
           playing_m = False, sr_m = 44100, fs_m = 512, tg_m = Some 0\<rparr>)"
proof -
  let ?c = "SimplePlayback_ctor STREAM_CLOSED"
  let ?w0 = "([], ?c) :: nat heap \<times> StreamState SimplePlayback"
  let ?pb = "\<lparr>audio_m = STREAM_RUNNING,
         streamParameters_m = \<lparr>deviceId = 0, nChannels = 1, firstChannel = 0\<rparr>,
         playing_m = True, sr_m = 44100, fs_m = 512, tg_m = Some 0\<rparr>"
  have o: "openStream sim_audio (audio_m ?c)
      \<lparr>deviceId = getDefaultOutputDevice sim_audio (audio_m ?c),
       nChannels = 0, firstChannel = 0\<rparr> 44100 (fs_m ?c)
     = Throws (RtAudioError ''invalid stream parameters'') (STREAM_CLOSED, 512)"
    by (simp add: sim_audio_def SimplePlayback_ctor_def)
  have s: "startStream sim_audio (audio_m ?c) = Throws (RtAudioError ''no open stream'') STREAM_CLOSED"
    by (simp add: sim_audio_def SimplePlayback_ctor_def)
  have np: "\<not> playing_m ?c"
    by (simp add: SimplePlayback_ctor_def)
  have t: "stopStream lost_audio STREAM_RUNNING
      = Throws (RtAudioError ''device disconnected'') STREAM_RUNNING"
    by (simp add: lost_audio_def)
  have p: "playing_m ?pb" by simp
  have i1: "fst (init sim_audio sim_random first_fit 44100 0 0 ?w0) = False"
    by (rule failure_is_reported [THEN conjunct1, THEN iffD2]) (intro exI, rule o)
  have i2: "init sim_audio sim_random first_fit 44100 0 0 ?w0 = (False, [], ?c\<lparr>sr_m := 44100\<rparr>)"
    by (simp add: init_def sim_audio_def SimplePlayback_ctor_def Let_def)
  have i3: "tg_m (?c\<lparr>sr_m := 44100\<rparr>) = tg_m ?c"
    using failure_is_reported [THEN conjunct2, THEN conjunct1, rule_format, OF i2]
    by (elim conjE)
  have s1: "fst (start sim_audio ?c) = False"
    by (rule failure_is_reported [THEN conjunct2, THEN conjunct2, THEN conjunct1, rule_format,
          OF np, THEN iffD2]) (intro exI, rule s)
  have t0: "stopStream lost_audio (audio_m ?pb) = Throws (RtAudioError ''device disconnected'') STREAM_RUNNING"
    using t by simp
  have t1: "stop lost_audio ?pb = (False, ?pb)"
    using failure_is_reported [THEN conjunct2, THEN conjunct2, THEN conjunct2, THEN conjunct2,
        THEN conjunct1, rule_format, OF p t0]
    by simp
  have u1: "stopStream unclosable_audio STREAM_RUNNING = Returns STREAM_STOPPED"
    and u2: "isStreamOpen unclosable_audio STREAM_STOPPED"
    and u3: "closeStream unclosable_audio STREAM_STOPPED
       = Throws (RtAudioError ''cannot close the device'') STREAM_STOPPED"
    by (simp_all add: unclosable_audio_def sim_audio_def)
  have u0: "stopStream unclosable_audio (audio_m ?pb) = Returns STREAM_STOPPED"
    using u1 by simp
  have u4: "fst (stop unclosable_audio ?pb) = False"
    by (rule failure_is_reported [THEN conjunct2, THEN conjunct2, THEN conjunct2, THEN conjunct2,
          THEN conjunct2, THEN conjunct2, THEN conjunct1, rule_format, OF p, THEN iffD2])
      (intro disjI2 exI conjI, rule u0, rule u2, rule u3)
  have u5: "stop unclosable_audio ?pb = (False, \<lparr>audio_m = STREAM_STOPPED,
           streamParameters_m = \<lparr>deviceId = 0, nChannels = 1, firstChannel = 0\<rparr>,
           playing_m = False, sr_m = 44100, fs_m = 512, tg_m = Some 0\<rparr>)"
    using failure_is_reported [THEN conjunct2, THEN conjunct2, THEN conjunct2, THEN conjunct2,
        THEN conjunct2, THEN conjunct2, THEN conjunct2, rule_format, OF p u0 u2 u3]
    by simp
  show ?thesis
    by (intro conjI o i1 i2 i3 np s s1 p t t1 u1 u2 u3 u4 u5)
qed

text \<open>
  C5 as stated, with the state before the call intact, fails for \<open>init\<close>: on a new
  driver, \<open>init(44100, 0, 0)\<close> is refused by the backend and returns false, and \<open>sr_\<close> is
  44100 afterwards, not 0.
\<close>

theorem failed_init_counterexample:
  "init sim_audio sim_random first_fit 44100 0 0 ([], SimplePlayback_ctor STREAM_CLOSED)
     = (False, [], (SimplePlayback_ctor STREAM_CLOSED)\<lparr>sr_m := 44100\<rparr>)
   \<and> sr_m ((SimplePlayback_ctor STREAM_CLOSED)\<lparr>sr_m := 44100\<rparr>)
       \<noteq> sr_m (SimplePlayback_ctor STREAM_CLOSED)"
  by (simp add: init_def sim_audio_def SimplePlayback_ctor_def Let_def)

subsection \<open>The generator that \<open>init\<close> constructs\<close>

lemma init_True_Returns:
  assumes "init be rng al sr nch toneGen (h, pb) = (True, h', pb')"
  obtains a f where "openStream be (audio_m pb)
         \<lparr>deviceId = getDefaultOutputDevice be (audio_m pb), nChannels = nch, firstChannel = 0\<rparr>
         sr (fs_m pb) = Returns (a, f)"
proof -
  from assms have "fst (init be rng al sr nch toneGen (h, pb)) \<noteq> False" by simp
  then obtain r where "openStream be (audio_m pb)
         \<lparr>deviceId = getDefaultOutputDevice be (audio_m pb), nChannels = nch, firstChannel = 0\<rparr>
         sr (fs_m pb) = Returns r"
    unfolding init_fails_iff by (metis call_cases)
  moreover obtain a f where "r = (a, f)" by (cases r)
  ultimately show ?thesis using that by simp
qed

lemma init_unknown_selector:
  assumes "toneGen \<noteq> 1" and "toneGen \<noteq> 2"
  shows "init be rng al sr nch toneGen (h, pb) = init be rng al sr nch 0 (h, pb)"
proof (cases "openStream be (audio_m pb)
         \<lparr>deviceId = getDefaultOutputDevice be (audio_m pb), nChannels = nch, firstChannel = 0\<rparr>
         sr (fs_m pb)" rule: call_cases)
  case (Returns r)
  obtain a f where "r = (a, f)" by (cases r)
  with Returns assms show ?thesis
    by (simp add: init_Returns)
next
  case (Throws e r)
  obtain a f where "r = (a, f)" by (cases r)
  with Throws show ?thesis
    by (simp add: init_Throws)
qed

lemma init_constructs_Sine:
  assumes t: "toneGen \<noteq> 1" "toneGen \<noteq> 2"
    and i: "init be rng al sr nch toneGen (h, pb) = (True, h', pb')"
  shows "\<exists>p'. tg_m pb' = Some p' \<and> lookup h' p' = Some (SineGen_ctor SineGen_default_a)"
proof -
  from i obtain a f where o: "openStream be (audio_m pb)
         \<lparr>deviceId = getDefaultOutputDevice be (audio_m pb), nChannels = nch, firstChannel = 0\<rparr>
         sr (fs_m pb) = Returns (a, f)"
    by (rule init_True_Returns)
  let ?h1 = "case tg_m pb of None \<Rightarrow> h | Some p \<Rightarrow> delete h p"
  from i t have h': "h' = put ?h1 (al ?h1) (SineGen_ctor SineGen_default_a)"
    and tg: "tg_m pb' = Some (al ?h1)"
    unfolding init_Returns [OF o] by (auto simp: new_def)
  have "lookup h' (al ?h1) = Some (SineGen_ctor SineGen_default_a)"
    unfolding h' by (rule lookup_put_same)
  with tg show ?thesis
    by blast
qed

lemma init_destroys_old:
  assumes i: "init be rng al sr nch toneGen (h, pb) = (True, h', pb')"
    and p: "tg_m pb = Some p" and g: "lookup h p = Some g"
  shows "(tg_m pb', h') =
           (Some (al (delete h p)),
            put (delete h p) (al (delete h p))
              (if toneGen = 1 then SquareGen_ctor SquareGen_default_a
               else if toneGen = 2 then WhiteNoiseGen_ctor rng WhiteNoiseGen_default_a
               else SineGen_ctor SineGen_default_a))
        \<and> (al (delete h p) \<noteq> p \<longrightarrow> lookup h' p = None)
        \<and> (allocates_free al \<longrightarrow> live h' = live h)"
proof -
  from i obtain a f where o: "openStream be (audio_m pb)
         \<lparr>deviceId = getDefaultOutputDevice be (audio_m pb), nChannels = nch, firstChannel = 0\<rparr>
         sr (fs_m pb) = Returns (a, f)"
    by (rule init_True_Returns)
  let ?obj = "if toneGen = 1 then SquareGen_ctor SquareGen_default_a
              else if toneGen = 2 then WhiteNoiseGen_ctor rng WhiteNoiseGen_default_a
              else SineGen_ctor SineGen_default_a"
  let ?p = "al (delete h p)"
  from i p have h': "h' = put (delete h p) ?p ?obj" and tg: "tg_m pb' = Some ?p"
    unfolding init_Returns [OF o] by (auto simp: new_def)
  have 1: "(tg_m pb', h') = (Some ?p, put (delete h p) ?p ?obj)"
    using h' tg by simp
  have 2: "?p \<noteq> p \<longrightarrow> lookup h' p = None"
    unfolding h' by (simp add: lookup_put_other lookup_delete_same)
  have 3: "allocates_free al \<longrightarrow> live h' = live h"
  proof
    assume "allocates_free al"
    then have "lookup (delete h p) ?p = None"
      by (simp add: allocates_free_def)
    then have "live h' = Suc (live (delete h p))"
      unfolding h' by (rule live_put)
    with live_delete [OF g] show "live h' = live h"
      by simp
  qed
  show ?thesis
    by (rule conjI [OF 1 conjI [OF 2 3]])
qed

text \<open>
  C6. With a selector other than 1 and 2, \<open>init\<close> does exactly what it does with
  selector 0, on every state, backend and allocator; when it succeeds, \<open>tg_\<close> points to an
  object that is a new \<open>SineGen\<close> with the default amplitude. When \<open>init\<close> succeeds on a
  driver whose \<open>tg_\<close> points to an allocated object, whatever the selector, that object is
  destroyed before the new one is constructed: the allocator chooses the address of the
  new object in the store from which the old object is already deleted, and the new store
  is that store with the new object put there. So an allocator that hands back the
  address just freed puts the new object where the old one was; with any other choice the
  old address is not allocated afterwards. With an allocator that returns addresses that
  are not allocated, the number of allocated objects is the same as before.
\<close>

theorem unknown_selector_is_Sine:
  "(toneGen \<noteq> 1 \<longrightarrow> toneGen \<noteq> 2 \<longrightarrow>
      init be rng al sr nch toneGen (h, pb) = init be rng al sr nch 0 (h, pb))
   \<and> (toneGen \<noteq> 1 \<longrightarrow> toneGen \<noteq> 2 \<longrightarrow>
        init be rng al sr nch toneGen (h, pb) = (True, h', pb') \<longrightarrow>
        (\<exists>p'. tg_m pb' = Some p' \<and> lookup h' p' = Some (SineGen_ctor SineGen_default_a)))
   \<and> (init be rng al sr nch toneGen (h, pb) = (True, h', pb') \<longrightarrow> tg_m pb = Some p \<longrightarrow>
        lookup h p = Some g \<longrightarrow>
        (tg_m pb', h') =
           (Some (al (delete h p)),
            put (delete h p) (al (delete h p))
              (if toneGen = 1 then SquareGen_ctor SquareGen_default_a
               else if toneGen = 2 then WhiteNoiseGen_ctor rng WhiteNoiseGen_default_a
               else SineGen_ctor SineGen_default_a))
        \<and> (al (delete h p) \<noteq> p \<longrightarrow> lookup h' p = None)
        \<and> (allocates_free al \<longrightarrow> live h' = live h))"
proof -
  have A: "toneGen \<noteq> 1 \<longrightarrow> toneGen \<noteq> 2 \<longrightarrow>
      init be rng al sr nch toneGen (h, pb) = init be rng al sr nch 0 (h, pb)"
    by (intro impI) (rule init_unknown_selector)
  have B: "toneGen \<noteq> 1 \<longrightarrow> toneGen \<noteq> 2 \<longrightarrow>
        init be rng al sr nch toneGen (h, pb) = (True, h', pb') \<longrightarrow>
        (\<exists>p'. tg_m pb' = Some p' \<and> lookup h' p' = Some (SineGen_ctor SineGen_default_a))"
    by (intro impI) (rule init_constructs_Sine)
  have C: "init be rng al sr nch toneGen (h, pb) = (True, h', pb') \<longrightarrow> tg_m pb = Some p \<longrightarrow>
        lookup h p = Some g \<longrightarrow>
        (tg_m pb', h') =
           (Some (al (delete h p)),
            put (delete h p) (al (delete h p))
              (if toneGen = 1 then SquareGen_ctor SquareGen_default_a
               else if toneGen = 2 then WhiteNoiseGen_ctor rng WhiteNoiseGen_default_a
               else SineGen_ctor SineGen_default_a))
        \<and> (al (delete h p) \<noteq> p \<longrightarrow> lookup h' p = None)
        \<and> (allocates_free al \<longrightarrow> live h' = live h)"
    by (intro impI) (rule init_destroys_old)
  show ?thesis
    by (rule conjI [OF A conjI [OF B C]])
qed

text \<open>
  A session on the reference backend that leaves a square generator behind: \<open>init\<close> with
  selector 1, then \<open>start\<close> (see \<open>sim_start_stopped\<close> below), then \<open>stop\<close>, which closes
  the stream.
\<close>

lemma sim_session_Square:
  "init sim_audio sim_random first_fit 44100 1 1 ([], SimplePlayback_ctor STREAM_CLOSED)
     = (True, [Some (SquareGen_ctor SquareGen_default_a)],
        \<lparr>audio_m = STREAM_STOPPED,
         streamParameters_m = \<lparr>deviceId = 0, nChannels = 1, firstChannel = 0\<rparr>,
         playing_m = False, sr_m = 44100, fs_m = 512, tg_m = Some 0\<rparr>)"
  "stop sim_audio
        \<lparr>audio_m = STREAM_RUNNING,
         streamParameters_m = \<lparr>deviceId = 0, nChannels = 1, firstChannel = 0\<rparr>,
         playing_m = True, sr_m = 44100, fs_m = 512, tg_m = Some 0\<rparr>
     = (True, \<lparr>audio_m = STREAM_CLOSED,
         streamParameters_m = \<lparr>deviceId = 0, nChannels = 1, firstChannel = 0\<rparr>,
         playing_m = False, sr_m = 44100, fs_m = 512, tg_m = Some 0\<rparr>)"
  by (simp_all add: init_def stop_def sim_audio_def SimplePlayback_ctor_def Let_def new_def put_def)

text \<open>
  The theorem of C6 on the state this session leaves, with selector 99 and the reference
  allocator: the square generator at address 0 is deleted, the allocator hands address 0
  back, and the sine generator is constructed there.
\<close>

theorem unknown_selector_is_Sine_witness:
  "(99 :: uint) \<noteq> 1 \<and> (99 :: uint) \<noteq> 2
   \<and> init sim_audio sim_random first_fit 48000 1 99
        ([Some (SquareGen_ctor SquareGen_default_a)],
         \<lparr>audio_m = STREAM_CLOSED,
          streamParameters_m = \<lparr>deviceId = 0, nChannels = 1, firstChannel = 0\<rparr>,
          playing_m = False, sr_m = 44100, fs_m = 512, tg_m = Some 0\<rparr>)
     = init sim_audio sim_random first_fit 48000 1 0
        ([Some (SquareGen_ctor SquareGen_default_a)],
         \<lparr>audio_m = STREAM_CLOSED,
          streamParameters_m = \<lparr>deviceId = 0, nChannels = 1, firstChannel = 0\<rparr>,
          playing_m = False, sr_m = 44100, fs_m = 512, tg_m = Some 0\<rparr>)
   \<and> init sim_audio sim_random first_fit 48000 1 99
        ([Some (SquareGen_ctor SquareGen_default_a)],
         \<lparr>audio_m = STREAM_CLOSED,
          streamParameters_m = \<lparr>deviceId = 0, nChannels = 1, firstChannel = 0\<rparr>,
          playing_m = False, sr_m = 44100, fs_m = 512, tg_m = Some 0\<rparr>)
     = (True, [Some (SineGen_ctor SineGen_default_a)],
        \<lparr>audio_m = STREAM_STOPPED,
         streamParameters_m = \<lparr>deviceId = 0, nChannels = 1, firstChannel = 0\<rparr>,
         playing_m = False, sr_m = 48000, fs_m = 512, tg_m = Some 0\<rparr>)
   \<and> lookup [Some (SquareGen_ctor SquareGen_default_a)] 0
       = Some (SquareGen_ctor SquareGen_default_a :: nat ToneGenObj)
   \<and> first_fit (delete [Some (SquareGen_ctor SquareGen_default_a :: nat ToneGenObj)] 0) = 0
   \<and> allocates_free (first_fit :: nat allocator)
   \<and> live [Some (SineGen_ctor SineGen_default_a :: nat ToneGenObj)]
       = live [Some (SquareGen_ctor SquareGen_default_a :: nat ToneGenObj)]"
proof -
  let ?H = "[Some (SquareGen_ctor SquareGen_default_a)] :: nat heap"
  let ?H' = "[Some (SineGen_ctor SineGen_default_a)] :: nat heap"
  let ?PB = "\<lparr>audio_m = STREAM_CLOSED,
          streamParameters_m = \<lparr>deviceId = 0, nChannels = 1, firstChannel = 0\<rparr>,
          playing_m = False, sr_m = 44100, fs_m = 512, tg_m = Some 0\<rparr>"
  let ?PB' = "\<lparr>audio_m = STREAM_STOPPED,
         streamParameters_m = \<lparr>deviceId = 0, nChannels = 1, firstChannel = 0\<rparr>,
         playing_m = False, sr_m = 48000, fs_m = 512, tg_m = Some 0\<rparr>"
  have n1: "(99 :: uint) \<noteq> 1" and n2: "(99 :: uint) \<noteq> 2" by simp_all
  have i: "init sim_audio sim_random first_fit 48000 1 99 (?H, ?PB) = (True, ?H', ?PB')"
    by (simp add: init_def sim_audio_def Let_def new_def put_def delete_def)
  have t: "tg_m ?PB = Some 0" by simp
  have l: "lookup ?H 0 = Some (SquareGen_ctor SquareGen_default_a)"
    by (simp add: lookup_def)
  note A = unknown_selector_is_Sine [THEN conjunct1, rule_format, OF n1 n2,
      of sim_audio sim_random first_fit 48000 1 ?H ?PB]
  note C = unknown_selector_is_Sine [THEN conjunct2, THEN conjunct2, rule_format, OF i t l]
  from C [THEN conjunct1] have f: "first_fit (delete ?H 0) = 0"
    by simp
  note c2 = C [THEN conjunct2, THEN conjunct2, rule_format, OF first_fit_free]
  show ?thesis
    by (intro conjI n1 n2 A i l f first_fit_free c2)
qed

subsection \<open>The callback\<close>

lemma advance_add: "advance rng (m + n) g = advance rng n (advance rng m g)"
  by (induction m arbitrary: g) simp_all

lemma samples_add: "samples rng (m + n) g = samples rng m g @ samples rng n (advance rng m g)"
  by (induction m arbitrary: g) simp_all

lemma length_samples: "length (samples rng n g) = n"
  by (induction n arbitrary: g) simp_all

lemma samples_nth: "i < n \<Longrightarrow> samples rng n g ! i = nth_sample rng i g"
proof (induction n arbitrary: i g)
  case 0
  then show ?case by simp
next
  case (Suc n)
  show ?case
  proof (cases i)
    case 0
    then show ?thesis by (simp add: nth_sample_def)
  next
    case (Suc j)
    with Suc.prems Suc.IH [of j "snd (nextSample rng g)"] show ?thesis
      by (simp add: nth_sample_def)
  qed
qed

lemma samples_map: "samples rng n g = map (\<lambda>i. nth_sample rng i g) [0..<n]"
  by (rule nth_equalityI) (simp_all add: length_samples samples_nth)

lemma callback_loop_fills:
  assumes "lookup h p = Some g" and "i + k \<le> length buf"
  shows "callback_loop rng k i (Some p) h buf =
     Some (h[p := Some (advance rng k g)], take i buf @ samples rng k g @ drop (i + k) buf)"
  using assms
proof (induction k arbitrary: i h g buf)
  case 0
  from 0(1) have "h[p := Some g] = h"
    by (simp add: lookup_def list_update_same_conv split: if_splits)
  then show ?case by simp
next
  case (Suc k)
  let ?s = "fst (nextSample rng g)" and ?g = "snd (nextSample rng g)"
  have c: "call_nextSample rng h p = Some (?s, h[p := Some ?g])"
    by (rule call_nextSample_Some [OF Suc.prems(1)])
  have i: "i < length buf" using Suc.prems(2) by simp
  have l: "lookup (h[p := Some ?g]) p = Some ?g"
    using Suc.prems(1) by (simp add: lookup_update_same lookup_Some_length)
  have b: "Suc i + k \<le> length (buf[i := ?s])" using Suc.prems(2) by simp
  have t: "take (Suc i) (buf[i := ?s]) = take i buf @ [?s]"
    using i by (simp add: take_Suc_conv_app_nth)
  have d: "drop (Suc i + k) (buf[i := ?s]) = drop (i + Suc k) buf"
    by simp
  show ?case
    using Suc.IH [OF l b] c i by (simp add: t d)
qed

lemma callback_fills:
  assumes "tg_m pb = Some p" and "lookup h p = Some g" and "unat n \<le> length buf"
    and "unat n < 2 ^ 31"
  shows "callback rng (h, pb) buf n =
     Some (0, samples rng (unat n) g @ drop (unat n) buf,
           h[p := Some (advance rng (unat n) g)], pb)"
  using assms callback_loop_fills [of h p g 0 "unat n" buf rng]
  by (simp add: callback_def)

lemma run_callbacks_mono:
  assumes "tg_m pb = Some p" and "nChannels (streamParameters_m pb) = 1" and "unat F < 2 ^ 31"
    and "lookup h p = Some g"
  shows "run_callbacks rng N F (h, pb) =
     Some (samples rng (N * unat F) g, h[p := Some (advance rng (N * unat F) g)], pb)"
  using assms(4)
proof (induction N arbitrary: h g)
  case 0
  then have "h[p := Some g] = h"
    by (simp add: lookup_def list_update_same_conv split: if_splits)
  then show ?case by simp
next
  case (Suc N)
  let ?g = "advance rng (unat F) g"
  let ?h = "h[p := Some ?g]"
  have c: "callback rng (h, pb) (replicate (unat F) 0) F = Some (0, samples rng (unat F) g, ?h, pb)"
    using callback_fills [OF assms(1) Suc.prems _ assms(3), of "replicate (unat F) 0" rng]
    by simp
  have l: "lookup ?h p = Some ?g"
    using Suc.prems by (simp add: lookup_update_same lookup_Some_length)
  show ?case
    using Suc.IH [OF l] c assms(2)
    by (simp add: samples_add advance_add)
qed

lemma init_Sine_state:
  assumes "init be rng al sr nch 0 w0 = (True, h1, pb1)"
  shows "\<exists>p. tg_m pb1 = Some p \<and> lookup h1 p = Some (SineGen_ctor SineGen_default_a)
       \<and> nChannels (streamParameters_m pb1) = nch"
proof -
  obtain h0 pb0 where w0: "w0 = (h0, pb0)" by (cases w0)
  from assms obtain a f where o: "openStream be (audio_m pb0)
         \<lparr>deviceId = getDefaultOutputDevice be (audio_m pb0), nChannels = nch, firstChannel = 0\<rparr>
         sr (fs_m pb0) = Returns (a, f)"
    unfolding w0 by (rule init_True_Returns)
  have "(0 :: uint) \<noteq> 1" "(0 :: uint) \<noteq> 2" by simp_all
  from init_constructs_Sine [OF this assms [unfolded w0]]
  have "\<exists>p. tg_m pb1 = Some p \<and> lookup h1 p = Some (SineGen_ctor SineGen_default_a)" .
  moreover from assms have "nChannels (streamParameters_m pb1) = nch"
    unfolding w0 init_Returns [OF o] by auto
  ultimately show ?thesis by blast
qed

lemma start_True_state:
  "start be pb = (True, pb') \<Longrightarrow>
   tg_m pb' = tg_m pb \<and> streamParameters_m pb' = streamParameters_m pb \<and> playing_m pb'"
  by (cases "startStream be (audio_m pb)") (auto simp: start_def split: if_splits)

lemma Sine_samples:
  "samples rng n (SineGen_ctor SineGen_default_a)
     = map (\<lambda>i. sin (float_of_nat (i mod 2 ^ 32) / 16)) [0..<n]"
  by (simp add: samples_map nth_sample_SineGen SineGen_ctor_def ToneGen_ctor_def
      SineGen_default_a_def static_cast_float_of_nat)

lemma Sine_samples_exact:
  assumes "n \<le> 2 ^ 24 + 1"
  shows "samples rng n (SineGen_ctor SineGen_default_a) = map (\<lambda>i. sin (real i / 16)) [0..<n]"
proof -
  have "float_of_nat (i mod 2 ^ 32) = real i" if "i < n" for i
  proof -
    from that assms have "i \<le> 2 ^ 24" by simp
    then show ?thesis by (simp add: float_of_nat_exact)
  qed
  then show ?thesis
    unfolding Sine_samples by simp
qed

text \<open>
  C1, as amended. A callback for \<open>n\<close> frames, on a buffer of at least \<open>n\<close> floats and
  with \<open>n\<close> at most \<open>INT_MAX\<close>, calls \<open>nextSample\<close> of the active generator exactly \<open>n\<close>
  times and stores the results, in order, in the first \<open>n\<close> floats of the buffer; the rest
  of the buffer and the driver are untouched. With one channel, float \<open>f\<close> is the only
  channel of frame \<open>f\<close>. Consequently, after \<open>init(44100, 1, 0)\<close> and \<open>start()\<close> have
  succeeded, \<open>N\<close> callbacks of \<open>F\<close> frames each produce, concatenated, the first \<open>N * F\<close>
  samples of a new \<open>SineGen\<close> of amplitude 1. Sample \<open>i\<close> of these is \<open>sin (f / 16)\<close>,
  where \<open>f\<close> is \<open>i mod 2 ^ 32\<close> rounded to a float; up to \<open>2 ^ 24 + 1\<close> samples, that is
  \<open>sin (i / 16)\<close>.
\<close>

theorem callback_writes_frames:
  "(tg_m pb = Some p \<longrightarrow> lookup h p = Some g \<longrightarrow> unat n \<le> length buf \<longrightarrow> unat n < 2 ^ 31 \<longrightarrow>
      callback rng (h, pb) buf n =
        Some (0, samples rng (unat n) g @ drop (unat n) buf,
              h[p := Some (advance rng (unat n) g)], pb)
      \<and> (\<forall>f < unat n. (samples rng (unat n) g @ drop (unat n) buf) ! slot 1 f 0 = nth_sample rng f g))
   \<and> (init be rng al 44100 1 0 w0 = (True, h1, pb1) \<longrightarrow> start be pb1 = (True, pb2) \<longrightarrow>
        unat F < 2 ^ 31 \<longrightarrow>
        (\<exists>h3. run_callbacks rng N F (h1, pb2) =
            Some (samples rng (N * unat F) (SineGen_ctor SineGen_default_a), h3, pb2)))
   \<and> samples rng (N * unat F) (SineGen_ctor SineGen_default_a)
        = map (\<lambda>i. sin (float_of_nat (i mod 2 ^ 32) / 16)) [0..<N * unat F]
   \<and> (N * unat F \<le> 2 ^ 24 + 1 \<longrightarrow>
        samples rng (N * unat F) (SineGen_ctor SineGen_default_a)
          = map (\<lambda>i. sin (real i / 16)) [0..<N * unat F])"
proof -
  have a: "tg_m pb = Some p \<longrightarrow> lookup h p = Some g \<longrightarrow> unat n \<le> length buf \<longrightarrow> unat n < 2 ^ 31 \<longrightarrow>
      callback rng (h, pb) buf n =
        Some (0, samples rng (unat n) g @ drop (unat n) buf,
              h[p := Some (advance rng (unat n) g)], pb)
      \<and> (\<forall>f < unat n. (samples rng (unat n) g @ drop (unat n) buf) ! slot 1 f 0 = nth_sample rng f g)"
  proof (intro impI)
    assume "tg_m pb = Some p" "lookup h p = Some g" "unat n \<le> length buf" "unat n < 2 ^ 31"
    from callback_fills [OF this]
    show "callback rng (h, pb) buf n =
        Some (0, samples rng (unat n) g @ drop (unat n) buf,
              h[p := Some (advance rng (unat n) g)], pb)
      \<and> (\<forall>f < unat n. (samples rng (unat n) g @ drop (unat n) buf) ! slot 1 f 0 = nth_sample rng f g)"
      by (simp add: slot_def nth_append length_samples samples_nth)
  qed
  have b: "init be rng al 44100 1 0 w0 = (True, h1, pb1) \<longrightarrow> start be pb1 = (True, pb2) \<longrightarrow>
        unat F < 2 ^ 31 \<longrightarrow>
        (\<exists>h3. run_callbacks rng N F (h1, pb2) =
            Some (samples rng (N * unat F) (SineGen_ctor SineGen_default_a), h3, pb2))"
  proof (intro impI)
    assume i: "init be rng al 44100 1 0 w0 = (True, h1, pb1)" and s: "start be pb1 = (True, pb2)"
      and F: "unat F < 2 ^ 31"
    from init_Sine_state [OF i] obtain q where q: "tg_m pb1 = Some q"
        "lookup h1 q = Some (SineGen_ctor SineGen_default_a)"
        "nChannels (streamParameters_m pb1) = 1"
      by blast
    from start_True_state [OF s] q have "tg_m pb2 = Some q" "nChannels (streamParameters_m pb2) = 1"
      by simp_all
    from run_callbacks_mono [OF this F q(2), of rng N]
    show "\<exists>h3. run_callbacks rng N F (h1, pb2) =
            Some (samples rng (N * unat F) (SineGen_ctor SineGen_default_a), h3, pb2)"
      by blast
  qed
  have c: "samples rng (N * unat F) (SineGen_ctor SineGen_default_a)
        = map (\<lambda>i. sin (float_of_nat (i mod 2 ^ 32) / 16)) [0..<N * unat F]"
    by (rule Sine_samples)
  have d: "N * unat F \<le> 2 ^ 24 + 1 \<longrightarrow>
        samples rng (N * unat F) (SineGen_ctor SineGen_default_a)
          = map (\<lambda>i. sin (real i / 16)) [0..<N * unat F]"
    by (intro impI) (rule Sine_samples_exact)
  show ?thesis
    by (rule conjI [OF a conjI [OF b conjI [OF c d]]])
qed

text \<open>Evaluating the reference backend.\<close>

lemma sim_init_Sine:
  "init sim_audio sim_random first_fit 44100 nch 0 ([], SimplePlayback_ctor STREAM_CLOSED) =
     (if nch = 0
      then (False, [], (SimplePlayback_ctor STREAM_CLOSED)\<lparr>sr_m := 44100\<rparr>)
      else (True, [Some (SineGen_ctor SineGen_default_a)],
            \<lparr>audio_m = STREAM_STOPPED,
             streamParameters_m = \<lparr>deviceId = 0, nChannels = nch, firstChannel = 0\<rparr>,
             playing_m = False, sr_m = 44100, fs_m = 512, tg_m = Some 0\<rparr>))"
  by (simp add: init_def sim_audio_def SimplePlayback_ctor_def Let_def new_def put_def)

lemma sim_start_stopped:
  "start sim_audio \<lparr>audio_m = STREAM_STOPPED, streamParameters_m = sp,
             playing_m = False, sr_m = sr, fs_m = f, tg_m = t\<rparr>
   = (True, \<lparr>audio_m = STREAM_RUNNING, streamParameters_m = sp,
             playing_m = True, sr_m = sr, fs_m = f, tg_m = t\<rparr>)"
  by (simp add: start_def sim_audio_def)

text \<open>
  The theorem of C1 on the reference backend: one callback of two frames on a buffer of
  two floats, and two callbacks of two frames after \<open>init(44100, 1, 0)\<close> and \<open>start()\<close>.
\<close>

theorem callback_writes_frames_witness:
  "tg_m \<lparr>audio_m = STREAM_RUNNING,
         streamParameters_m = \<lparr>deviceId = 0, nChannels = 1, firstChannel = 0\<rparr>,
         playing_m = True, sr_m = 44100, fs_m = 512, tg_m = Some 0\<rparr> = Some 0
   \<and> lookup [Some (SineGen_ctor SineGen_default_a)] 0
       = Some (SineGen_ctor SineGen_default_a :: nat ToneGenObj)
   \<and> unat (2 :: uint) \<le> length [9, 9 :: real]
   \<and> unat (2 :: uint) < 2 ^ 31
   \<and> map_option (\<lambda>r. fst (snd r))
        (callback sim_random ([Some (SineGen_ctor SineGen_default_a)],
           \<lparr>audio_m = STREAM_RUNNING,
            streamParameters_m = \<lparr>deviceId = 0, nChannels = 1, firstChannel = 0\<rparr>,
            playing_m = True, sr_m = 44100, fs_m = 512, tg_m = Some 0\<rparr>)
           [9, 9] 2)
       = Some [0, sin (1 / 16)]
   \<and> init sim_audio sim_random first_fit 44100 1 0 ([], SimplePlayback_ctor STREAM_CLOSED)
     = (True, [Some (SineGen_ctor SineGen_default_a)],
        \<lparr>audio_m = STREAM_STOPPED,
         streamParameters_m = \<lparr>deviceId = 0, nChannels = 1, firstChannel = 0\<rparr>,
         playing_m = False, sr_m = 44100, fs_m = 512, tg_m = Some 0\<rparr>)
   \<and> start sim_audio
        \<lparr>audio_m = STREAM_STOPPED,
         streamParameters_m = \<lparr>deviceId = 0, nChannels = 1, firstChannel = 0\<rparr>,
         playing_m = False, sr_m = 44100, fs_m = 512, tg_m = Some 0\<rparr>
     = (True, \<lparr>audio_m = STREAM_RUNNING,
         streamParameters_m = \<lparr>deviceId = 0, nChannels = 1, firstChannel = 0\<rparr>,
         playing_m = True, sr_m = 44100, fs_m = 512, tg_m = Some 0\<rparr>)
   \<and> (\<exists>h3. run_callbacks sim_random 2 2 ([Some (SineGen_ctor SineGen_default_a)],
         \<lparr>audio_m = STREAM_RUNNING,
          streamParameters_m = \<lparr>deviceId = 0, nChannels = 1, firstChannel = 0\<rparr>,
          playing_m = True, sr_m = 44100, fs_m = 512, tg_m = Some 0\<rparr>)
        = Some ([0, sin (1 / 16), sin (2 / 16), sin (3 / 16)], h3,
         \<lparr>audio_m = STREAM_RUNNING,
          streamParameters_m = \<lparr>deviceId = 0, nChannels = 1, firstChannel = 0\<rparr>,
          playing_m = True, sr_m = 44100, fs_m = 512, tg_m = Some 0\<rparr>))"
proof -
  let ?G = "SineGen_ctor SineGen_default_a :: nat ToneGenObj"
  let ?pb1 = "\<lparr>audio_m = STREAM_STOPPED,
         streamParameters_m = \<lparr>deviceId = 0, nChannels = 1, firstChannel = 0\<rparr>,
         playing_m = False, sr_m = 44100, fs_m = 512, tg_m = Some 0\<rparr>"
  let ?pb2 = "\<lparr>audio_m = STREAM_RUNNING,
         streamParameters_m = \<lparr>deviceId = 0, nChannels = 1, firstChannel = 0\<rparr>,
         playing_m = True, sr_m = 44100, fs_m = 512, tg_m = Some 0\<rparr>"
  have e1: "tg_m ?pb2 = Some 0" by simp
  have e2: "lookup [Some ?G] 0 = Some ?G" by (simp add: lookup_def)
  have e3: "unat (2 :: uint) \<le> length [9, 9 :: real]" by simp
  have F: "unat (2 :: uint) < 2 ^ 31" by simp
  have i: "init sim_audio sim_random first_fit 44100 1 0 ([], SimplePlayback_ctor STREAM_CLOSED)
     = (True, [Some ?G], ?pb1)"
    by (simp add: sim_init_Sine)
  have s: "start sim_audio ?pb1 = (True, ?pb2)"
    by (rule sim_start_stopped)
  note p1 = callback_writes_frames [THEN conjunct1, rule_format, OF e1 e2 e3 F, of sim_random]
  note p2 = callback_writes_frames [THEN conjunct2, THEN conjunct1, rule_format, OF i s F, of 2]
  have le: "2 * unat (2 :: uint) \<le> 2 ^ 24 + 1" by simp
  note p3 = callback_writes_frames [THEN conjunct2, THEN conjunct2, THEN conjunct2, rule_format,
      OF le, of sim_random]
  have m: "map (\<lambda>i. sin (real i / 16)) [0..<2 * unat (2 :: uint)]
      = [0, sin (1 / 16), sin (2 / 16), sin (3 / 16)]"
    by (simp add: upt_rec)
  have m2: "samples sim_random 2 ?G = [0, sin (1 / 16)]"
    by (simp add: Sine_samples_exact upt_rec)
  from p1 have c: "map_option (\<lambda>r. fst (snd r)) (callback sim_random ([Some ?G], ?pb2) [9, 9] 2)
       = Some [0, sin (1 / 16)]"
    by (simp add: m2)
  from p2 obtain h3 where "run_callbacks sim_random 2 2 ([Some ?G], ?pb2)
        = Some (samples sim_random (2 * unat (2 :: uint)) ?G, h3, ?pb2)"
    by blast
  moreover note p3
  ultimately have r: "\<exists>h3. run_callbacks sim_random 2 2 ([Some ?G], ?pb2)
        = Some ([0, sin (1 / 16), sin (2 / 16), sin (3 / 16)], h3, ?pb2)"
    unfolding m by (intro exI) simp
  show ?thesis
    by (intro conjI e1 e2 e3 F c i s r)
qed

text \<open>
  C1 as stated, with each sample in the first channel of its own frame, fails with two
  channels. After \<open>init(44100, 2, 0)\<close> and \<open>start()\<close>, a callback of two frames on the
  buffer \<open>[9, 9, 9, 9]\<close> leaves \<open>[0, sin (1/16), 9, 9]\<close>: the second sample is in the second
  channel of the first frame, and the first channel of the second frame is not written.
\<close>

theorem callback_two_channels_counterexample:
  "init sim_audio sim_random first_fit 44100 2 0 ([], SimplePlayback_ctor STREAM_CLOSED)
     = (True, [Some (SineGen_ctor SineGen_default_a)],
        \<lparr>audio_m = STREAM_STOPPED,
         streamParameters_m = \<lparr>deviceId = 0, nChannels = 2, firstChannel = 0\<rparr>,
         playing_m = False, sr_m = 44100, fs_m = 512, tg_m = Some 0\<rparr>)
   \<and> map_option (\<lambda>r. fst (snd r))
        (callback sim_random ([Some (SineGen_ctor SineGen_default_a)],
           \<lparr>audio_m = STREAM_RUNNING,
            streamParameters_m = \<lparr>deviceId = 0, nChannels = 2, firstChannel = 0\<rparr>,
            playing_m = True, sr_m = 44100, fs_m = 512, tg_m = Some 0\<rparr>)
           [9, 9, 9, 9] 2)
       = Some [0, sin (1 / 16), 9, 9]
   \<and> nth_sample sim_random 1 (SineGen_ctor SineGen_default_a) = sin (1 / 16)
   \<and> [0, sin (1 / 16), 9, 9] ! slot 2 1 0 \<noteq> (sin (1 / 16) :: real)
   \<and> [0, sin (1 / 16), 9, 9] ! slot 2 0 1 = (sin (1 / 16) :: real)"
proof -
  have "sin (1 / 16 :: real) \<le> 1" by (rule sin_le_one)
  then have n: "sin (1 / 16 :: real) \<noteq> 9" by linarith
  have c: "callback sim_random ([Some (SineGen_ctor SineGen_default_a)],
           \<lparr>audio_m = STREAM_RUNNING,
            streamParameters_m = \<lparr>deviceId = 0, nChannels = 2, firstChannel = 0\<rparr>,
            playing_m = True, sr_m = 44100, fs_m = 512, tg_m = Some 0\<rparr>)
           [9, 9, 9, 9] 2
      = Some (0, samples sim_random 2 (SineGen_ctor SineGen_default_a) @ drop 2 [9, 9, 9, 9],
          [Some (SineGen_ctor SineGen_default_a)][0 := Some (advance sim_random 2 (SineGen_ctor SineGen_default_a))],
          \<lparr>audio_m = STREAM_RUNNING,
            streamParameters_m = \<lparr>deviceId = 0, nChannels = 2, firstChannel = 0\<rparr>,
            playing_m = True, sr_m = 44100, fs_m = 512, tg_m = Some 0\<rparr>)"
    using callback_fills [of "\<lparr>audio_m = STREAM_RUNNING,
            streamParameters_m = \<lparr>deviceId = 0, nChannels = 2, firstChannel = 0\<rparr>,
            playing_m = True, sr_m = 44100, fs_m = 512, tg_m = Some 0\<rparr>"
        0 "[Some (SineGen_ctor SineGen_default_a)]"
        "SineGen_ctor SineGen_default_a" 2 "[9, 9, 9, 9]" sim_random]
    by (simp add: lookup_def)
  have s: "samples sim_random 2 (SineGen_ctor SineGen_default_a) = [0, sin (1 / 16)]"
    by (simp add: Sine_samples_exact upt_rec)
  have t: "nth_sample sim_random 1 (SineGen_ctor SineGen_default_a) = sin (1 / 16)"
    by (simp add: nth_sample_SineGen SineGen_ctor_def ToneGen_ctor_def SineGen_default_a_def
        static_cast_float_def float_of_nat_exact)
  have u: "[0, sin (1 / 16), 9, 9] ! slot 2 1 0 \<noteq> (sin (1 / 16) :: real)"
    using n by (simp add: slot_def)
  have v: "[0, sin (1 / 16), 9, 9] ! slot 2 0 1 = (sin (1 / 16) :: real)"
    by (simp add: slot_def)
  have i: "init sim_audio sim_random first_fit 44100 2 0 ([], SimplePlayback_ctor STREAM_CLOSED)
     = (True, [Some (SineGen_ctor SineGen_default_a)],
        \<lparr>audio_m = STREAM_STOPPED,
         streamParameters_m = \<lparr>deviceId = 0, nChannels = 2, firstChannel = 0\<rparr>,
         playing_m = False, sr_m = 44100, fs_m = 512, tg_m = Some 0\<rparr>)"
    by (simp add: sim_init_Sine)
  have w: "map_option (\<lambda>r. fst (snd r))
        (callback sim_random ([Some (SineGen_ctor SineGen_default_a)],
           \<lparr>audio_m = STREAM_RUNNING,
            streamParameters_m = \<lparr>deviceId = 0, nChannels = 2, firstChannel = 0\<rparr>,
            playing_m = True, sr_m = 44100, fs_m = 512, tg_m = Some 0\<rparr>)
           [9, 9, 9, 9] 2)
       = Some [0, sin (1 / 16), 9, 9]"
    unfolding c by (simp add: s)
  show ?thesis
    by (intro conjI i w t u v)
qed

section \<open>The audio buffer\<close>






end
